theory Spec2Isabelle
  imports Complex_Main
begin

section \<open>Tables, rows and cells\<close>

text \<open>
  The handlers of \<^verbatim>\<open>app.js\<close> read a sheet with
  \<^verbatim>\<open>sheets.spreadsheets.values.get\<close> and work on
  \<^verbatim>\<open>response.data.values || []\<close>: an array of rows, each row an array of
  strings, possibly ragged. A row is a list of strings; \<^verbatim>\<open>row[i]\<close> is
  \<open>cell row i\<close>, where \<open>None\<close> is JavaScript's \<^verbatim>\<open>undefined\<close>
  (the index is past the end of the row).
\<close>

type_synonym row = "string list"

definition cell :: "row \<Rightarrow> nat \<Rightarrow> string option" where
  "cell r i = (if i < length r then Some (r ! i) else None)"

text \<open>
  The result of one \<^verbatim>\<open>await sheets.spreadsheets.values.get(...)\<close>: the call
  throws (and the handler's \<^verbatim>\<open>catch\<close> answers 500), or it returns a response
  whose \<^verbatim>\<open>data.values\<close> is an array of rows or is missing.
\<close>

datatype fetched = FetchFailed | Values "row list option"

text \<open>\<^verbatim>\<open>response.data.values || []\<close>: an array, also an empty one, is truthy.\<close>

definition rows_of :: "row list option \<Rightarrow> row list" where
  "rows_of v = (case v of None \<Rightarrow> [] | Some rs \<Rightarrow> rs)"

text \<open>\<^verbatim>\<open>rows.slice(1)\<close>: the rows after the header row.\<close>

definition slice1 :: "'a list \<Rightarrow> 'a list" where
  "slice1 xs = drop 1 xs"

text \<open>
  What a handler sends: \<open>Ok body\<close> is \<^verbatim>\<open>res.status(200).json(body)\<close>,
  \<open>Fail code msg\<close> is
  \<^verbatim>\<open>res.status(code).json({ success: false, message: msg })\<close>.
\<close>

datatype 'a reply = Ok 'a | Fail nat string

subsection \<open>Decimal numerals\<close>

text \<open>\<^verbatim>\<open>Number.prototype.toString\<close> on an integer.\<close>

definition digit_char :: "nat \<Rightarrow> char" where
  "digit_char d = ''0123456789'' ! d"

fun show_nat :: "nat \<Rightarrow> string" where
  "show_nat n = (if n < 10 then [digit_char n] else show_nat (n div 10) @ [digit_char (n mod 10)])"

declare show_nat.simps [simp del]

definition show_int :: "int \<Rightarrow> string" where
  "show_int i = (if i < 0 then CHR ''-'' # show_nat (nat (- i)) else show_nat (nat i))"

section \<open>POST /api/auth\<close>

text \<open>
  The \<^verbatim>\<open>employeeId\<close> property of the JSON request body: missing, a string, or
  any other JSON value, of which only the truthiness matters (\<^verbatim>\<open>===\<close> between a
  string cell and a value that is not a string is false).
\<close>

datatype body_field = Missing | Text string | NonText bool

fun falsy_field :: "body_field \<Rightarrow> bool" where
  "falsy_field Missing = True"
| "falsy_field (Text s) = (s = [])"
| "falsy_field (NonText t) = (\<not> t)"

fun cell_is :: "string option \<Rightarrow> body_field \<Rightarrow> bool" where
  "cell_is (Some c) (Text s) = (c = s)"
| "cell_is None Missing = True"
| "cell_is _ _ = False"

record auth_body =
  success :: bool
  message :: string
  token :: string

text \<open>
  \<^verbatim>\<open>rows.find(row => row[0] === employeeId)\<close> runs over \<^verbatim>\<open>rows\<close> itself:
  this handler does not call \<^verbatim>\<open>slice(1)\<close>. \<open>now\<close> is \<^verbatim>\<open>Date.now()\<close>.
\<close>

definition api_auth :: "body_field \<Rightarrow> fetched \<Rightarrow> int \<Rightarrow> auth_body reply" where
  "api_auth employeeId sheet now =
     (if falsy_field employeeId then Fail 400 ''Employee ID is required''
      else case sheet of
        FetchFailed \<Rightarrow> Fail 500 ''Server error during authentication''
      | Values v \<Rightarrow>
          (case find (\<lambda>row. cell_is (cell row 0) employeeId) (rows_of v) of
             None \<Rightarrow> Fail 401 ''Invalid Employee ID''
           | Some employee \<Rightarrow>
               Ok \<lparr>success = True, message = ''Authentication successful'',
                   token = ''sample-token-'' @ show_int now\<rparr>))"

section \<open>Values sent as JSON\<close>

text \<open>
  \<^verbatim>\<open>res.json\<close> sends \<^verbatim>\<open>JSON.stringify(body)\<close>. A property whose value is
  \<^verbatim>\<open>undefined\<close> is left out of the object; the numbers \<^verbatim>\<open>NaN\<close> and
  \<^verbatim>\<open>Infinity\<close> are written \<^verbatim>\<open>null\<close>.
\<close>

datatype json = JNull | JNum rat | JStr string | JArr "json list" | JObj "(string \<times> json) list"

definition json_object :: "(string \<times> json option) list \<Rightarrow> json" where
  "json_object kvs = JObj (List.map_filter (\<lambda>(k, v). map_option (Pair k) v) kvs)"

definition json_cell :: "string option \<Rightarrow> json option" where
  "json_cell c = map_option JStr c"

text \<open>\<^verbatim>\<open>row[i] || 'literal'\<close>: a missing cell and an empty cell are both falsy.\<close>

definition or_else :: "string option \<Rightarrow> string \<Rightarrow> string" where
  "or_else c d = (case c of None \<Rightarrow> d | Some s \<Rightarrow> if s = [] then d else s)"

section \<open>GET /api/enrollment-data and GET /api/discipline-data\<close>

record student =
  rollNo :: "string option"
  name :: "string option"
  gender :: "string option"
  category :: "string option"
  serviceCategory :: "string option"
  contact :: "string option"
  status :: string

definition student_of_row :: "row \<Rightarrow> student" where
  "student_of_row row =
     \<lparr>student.rollNo = cell row 0, name = cell row 1, gender = cell row 2,
      category = cell row 3, serviceCategory = cell row 4, contact = cell row 5,
      status = or_else (cell row 6) ''Active''\<rparr>"

definition enrollment_data :: "fetched \<Rightarrow> student list reply" where
  "enrollment_data sheet =
     (case sheet of
        FetchFailed \<Rightarrow> Fail 500 ''Server error fetching enrollment data''
      | Values v \<Rightarrow> Ok (map student_of_row (slice1 (rows_of v))))"

definition student_json :: "student \<Rightarrow> json" where
  "student_json s = json_object
     [(''rollNo'', json_cell (student.rollNo s)), (''name'', json_cell (student.name s)),
      (''gender'', json_cell (student.gender s)), (''category'', json_cell (student.category s)),
      (''serviceCategory'', json_cell (student.serviceCategory s)),
      (''contact'', json_cell (student.contact s)), (''status'', Some (JStr (student.status s)))]"

record discipline =
  id' :: "string option"
  date :: "string option"
  studentName :: "string option"
  rollNo :: "string option"
  description :: "string option"
  actionTaken :: string

definition discipline_of_row :: "row \<Rightarrow> discipline" where
  "discipline_of_row row =
     \<lparr>discipline.id' = cell row 0, date = cell row 1, studentName = cell row 2,
      discipline.rollNo = cell row 3, description = cell row 4,
      actionTaken = or_else (cell row 5) ''Verbal Warning''\<rparr>"

definition discipline_data :: "fetched \<Rightarrow> discipline list reply" where
  "discipline_data sheet =
     (case sheet of
        FetchFailed \<Rightarrow> Fail 500 ''Server error fetching discipline data''
      | Values v \<Rightarrow> Ok (map discipline_of_row (slice1 (rows_of v))))"

definition discipline_json :: "discipline \<Rightarrow> json" where
  "discipline_json d = json_object
     [(''id'', json_cell (discipline.id' d)), (''date'', json_cell (discipline.date d)),
      (''studentName'', json_cell (discipline.studentName d)),
      (''rollNo'', json_cell (discipline.rollNo d)),
      (''description'', json_cell (discipline.description d)),
      (''actionTaken'', Some (JStr (discipline.actionTaken d)))]"

section \<open>Counts against a fixed list of labels\<close>

record name_count =
  name :: string
  count :: nat

record category_count =
  category :: string
  count :: nat

record grade_count =
  grade :: string
  count :: nat

text \<open>GET /api/categories-data: \<^verbatim>\<open>students\<close> is \<^verbatim>\<open>rows.slice(1)\<close> of Students.\<close>

definition casteCategories :: "row list \<Rightarrow> name_count list" where
  "casteCategories students =
     [\<lparr>name_count.name = ''General'',
        count = length (filter (\<lambda>student. cell student 3 = Some ''General'') students)\<rparr>,
      \<lparr>name_count.name = ''OBC'',
        count = length (filter (\<lambda>student. cell student 3 = Some ''OBC'') students)\<rparr>,
      \<lparr>name_count.name = ''SC'',
        count = length (filter (\<lambda>student. cell student 3 = Some ''SC'') students)\<rparr>,
      \<lparr>name_count.name = ''ST'',
        count = length (filter (\<lambda>student. cell student 3 = Some ''ST'') students)\<rparr>,
      \<lparr>name_count.name = ''Muslim'',
        count = length (filter (\<lambda>student. cell student 3 = Some ''Muslim'') students)\<rparr>]"

definition serviceCategories :: "row list \<Rightarrow> category_count list" where
  "serviceCategories students =
     [\<lparr>category_count.category = ''1'',
        count = length (filter (\<lambda>student. cell student 4 = Some ''1'') students)\<rparr>,
      \<lparr>category_count.category = ''2'',
        count = length (filter (\<lambda>student. cell student 4 = Some ''2'') students)\<rparr>,
      \<lparr>category_count.category = ''3'',
        count = length (filter (\<lambda>student. cell student 4 = Some ''3'') students)\<rparr>,
      \<lparr>category_count.category = ''4'',
        count = length (filter (\<lambda>student. cell student 4 = Some ''4'') students)\<rparr>,
      \<lparr>category_count.category = ''5'',
        count = length (filter (\<lambda>student. cell student 4 = Some ''5'') students)\<rparr>]"

text \<open>
  GET /api/dashboard-data: \<^verbatim>\<open>studentData\<close> is \<^verbatim>\<open>students.slice(1)\<close> of
  Students, \<^verbatim>\<open>performance\<close> is \<^verbatim>\<open>performanceData.slice(1)\<close> of Performance.
\<close>

definition categories :: "row list \<Rightarrow> category_count list" where
  "categories studentData =
     [\<lparr>category_count.category = ''General'',
        count = length (filter (\<lambda>student. cell student 3 = Some ''General'') studentData)\<rparr>,
      \<lparr>category_count.category = ''OBC'',
        count = length (filter (\<lambda>student. cell student 3 = Some ''OBC'') studentData)\<rparr>,
      \<lparr>category_count.category = ''SC'',
        count = length (filter (\<lambda>student. cell student 3 = Some ''SC'') studentData)\<rparr>,
      \<lparr>category_count.category = ''ST'',
        count = length (filter (\<lambda>student. cell student 3 = Some ''ST'') studentData)\<rparr>,
      \<lparr>category_count.category = ''Muslim'',
        count = length (filter (\<lambda>student. cell student 3 = Some ''Muslim'') studentData)\<rparr>]"

definition performanceDistribution :: "row list \<Rightarrow> name_count list" where
  "performanceDistribution performance =
     [\<lparr>name_count.name = ''Excellent'',
        count = length (filter (\<lambda>student. cell student 1 = Some ''Excellent'') performance)\<rparr>,
      \<lparr>name_count.name = ''Good'',
        count = length (filter (\<lambda>student. cell student 1 = Some ''Good'') performance)\<rparr>,
      \<lparr>name_count.name = ''Average'',
        count = length (filter (\<lambda>student. cell student 1 = Some ''Average'') performance)\<rparr>,
      \<lparr>name_count.name = ''Needs Improvement'',
        count = length (filter (\<lambda>student. cell student 1 = Some ''Needs Improvement'')
                  performance)\<rparr>]"

text \<open>
  GET /api/assessments-data: \<^verbatim>\<open>grades\<close> is \<^verbatim>\<open>gradeRows.slice(1)\<close> of Grades.
  \<^verbatim>\<open>n || literal\<close> on a count: the count 0 is falsy. \<open>gradeDistribution_of grades\<close>
  is the array \<^verbatim>\<open>gradeDistribution\<close>.
\<close>

definition or_count :: "nat \<Rightarrow> nat \<Rightarrow> nat" where
  "or_count n d = (if n = 0 then d else n)"

definition gradeDistribution_of :: "row list \<Rightarrow> grade_count list" where
  "gradeDistribution_of grades =
     [\<lparr>grade_count.grade = ''A'', count = or_count (length (filter (\<lambda>g. cell g 4 = Some ''A'') grades)) 5\<rparr>,
      \<lparr>grade_count.grade = ''B'', count = or_count (length (filter (\<lambda>g. cell g 4 = Some ''B'') grades)) 12\<rparr>,
      \<lparr>grade_count.grade = ''C'', count = or_count (length (filter (\<lambda>g. cell g 4 = Some ''C'') grades)) 18\<rparr>,
      \<lparr>grade_count.grade = ''D'', count = or_count (length (filter (\<lambda>g. cell g 4 = Some ''D'') grades)) 8\<rparr>,
      \<lparr>grade_count.grade = ''F'', count = or_count (length (filter (\<lambda>g. cell g 4 = Some ''F'') grades)) 2\<rparr>]"

section \<open>Strings and numbers of the JavaScript runtime\<close>

text \<open>
  \<^verbatim>\<open>s.split(',')\<close>: the pieces between the commas, in order; a string without a
  comma is its own single piece.
\<close>

fun split_on :: "char \<Rightarrow> string \<Rightarrow> string list" where
  "split_on c [] = [[]]"
| "split_on c (x # xs) =
     (if x = c then [] # split_on c xs
      else (case split_on c xs of [] \<Rightarrow> [[x]] | w # ws \<Rightarrow> (x # w) # ws))"

text \<open>
  \<^verbatim>\<open>s.trim()\<close>. A \<open>string\<close> is a list of 8-bit characters, so the white space
  removed is the ASCII white space (tab, line feed, vertical tab, form feed, carriage
  return, space); the white space characters beyond ASCII that JavaScript also removes have
  no counterpart here.
\<close>

definition is_space :: "char \<Rightarrow> bool" where
  "is_space c = (c \<in> set [CHR 0x09, CHR 0x0A, CHR 0x0B, CHR 0x0C, CHR 0x0D, CHR '' ''])"

definition trim :: "string \<Rightarrow> string" where
  "trim s = rev (dropWhile is_space (rev (dropWhile is_space s)))"

text \<open>\<^verbatim>\<open>c ? c.split(',').map(s => s.trim()) : []\<close>\<close>

definition comma_list :: "string option \<Rightarrow> string list" where
  "comma_list c =
     (case c of
        None \<Rightarrow> []
      | Some s \<Rightarrow> if s = [] then [] else map trim (split_on CHR '','' s))"

text \<open>
  A JavaScript number, with the finite values taken exactly (as rationals, and \<open>-0\<close>
  identified with \<open>0\<close>): the rounding of IEEE 754 arithmetic is not modelled. The
  operations below are those the handlers apply: a quotient by a count, a product and a
  sum, \<^verbatim>\<open>Math.round\<close>, \<^verbatim>\<open>Math.floor\<close>, truthiness and \<^verbatim>\<open>x || y\<close>.
\<close>

datatype jsnum = NaN | PosInf | NegInf | Fin rat

text \<open>\<^verbatim>\<open>x / n\<close> for a count \<open>n\<close> (a length): \<^verbatim>\<open>0 / 0\<close> is \<^verbatim>\<open>NaN\<close>.\<close>

fun js_div_count :: "jsnum \<Rightarrow> nat \<Rightarrow> jsnum" where
  "js_div_count NaN n = NaN"
| "js_div_count PosInf n = PosInf"
| "js_div_count NegInf n = NegInf"
| "js_div_count (Fin r) n =
     (if n = 0 then (if r = 0 then NaN else if 0 < r then PosInf else NegInf)
      else Fin (r / of_nat n))"

text \<open>\<^verbatim>\<open>x * k\<close> for a finite \<open>k\<close>.\<close>

fun js_times :: "jsnum \<Rightarrow> rat \<Rightarrow> jsnum" where
  "js_times NaN k = NaN"
| "js_times PosInf k = (if k = 0 then NaN else if 0 < k then PosInf else NegInf)"
| "js_times NegInf k = (if k = 0 then NaN else if 0 < k then NegInf else PosInf)"
| "js_times (Fin r) k = Fin (r * k)"

fun js_add :: "jsnum \<Rightarrow> jsnum \<Rightarrow> jsnum" where
  "js_add (Fin a) (Fin b) = Fin (a + b)"
| "js_add NaN y = NaN"
| "js_add x NaN = NaN"
| "js_add PosInf NegInf = NaN"
| "js_add NegInf PosInf = NaN"
| "js_add PosInf y = PosInf"
| "js_add NegInf y = NegInf"
| "js_add (Fin a) y = y"

text \<open>\<^verbatim>\<open>Math.round\<close> rounds to the nearest integer, a half towards \<open>+\<infinity>\<close>.\<close>

fun js_round :: "jsnum \<Rightarrow> jsnum" where
  "js_round (Fin r) = Fin (of_int \<lfloor>r + 1 / 2\<rfloor>)"
| "js_round x = x"

fun js_floor :: "jsnum \<Rightarrow> jsnum" where
  "js_floor (Fin r) = Fin (of_int \<lfloor>r\<rfloor>)"
| "js_floor x = x"

fun js_truthy :: "jsnum \<Rightarrow> bool" where
  "js_truthy NaN = False"
| "js_truthy (Fin r) = (r \<noteq> 0)"
| "js_truthy x = True"

definition js_or :: "jsnum \<Rightarrow> jsnum \<Rightarrow> jsnum" where
  "js_or x y = (if js_truthy x then x else y)"

definition of_count :: "nat \<Rightarrow> jsnum" where
  "of_count n = Fin (of_nat n)"

text \<open>\<^verbatim>\<open>Math.round((a / b) * 100)\<close> for two counts.\<close>

definition percent :: "nat \<Rightarrow> nat \<Rightarrow> jsnum" where
  "percent a b = js_round (js_times (js_div_count (of_count a) b) 100)"


text \<open>
  \<^verbatim>\<open>Math.random()\<close>: the handler's draws are taken from a sequence \<open>rnd\<close>, the
  \<open>n\<close>-th call returning \<open>rnd n\<close>; the number of calls made so far is threaded through
  the code that draws. The runtime promises \<open>0 \<le> rnd n < 1\<close>.
\<close>

type_synonym rng = "nat \<Rightarrow> rat"


section \<open>GET /api/workshops-data\<close>

record session =
  date :: string
  topic :: string

record workshop =
  id' :: "string option"
  title :: "string option"
  duration :: "string option"
  status :: "string option"
  participants :: string
  sessions :: "session list"







section \<open>GET /api/student-details/:id\<close>

record discipline_record =
  id' :: "string option"
  date :: "string option"
  incident :: "string option"
  action :: string

record student_details =
  rollNo :: "string option"
  name :: "string option"
  gender :: "string option"
  category :: "string option"
  serviceCategory :: "string option"
  contact :: "string option"
  class' :: string
  performanceReport :: string
  strengths :: "string list"
  weaknesses :: "string list"
  suggestions :: "string list"
  disciplineRecords :: "discipline_record list"
  achievements :: "string option list"

text \<open>
  The four sheets are fetched one after the other before any row is read; a failed fetch
  ends in the handler's \<^verbatim>\<open>catch\<close>. \<open>studentId\<close> is \<^verbatim>\<open>req.params.id\<close>, a string.
\<close>

definition student_details ::
  "string \<Rightarrow> fetched \<Rightarrow> fetched \<Rightarrow> fetched \<Rightarrow> fetched \<Rightarrow> student_details reply" where
  "student_details studentId studentSheet performanceSheet disciplineSheet achievementsSheet =
     (case (studentSheet, performanceSheet, disciplineSheet, achievementsSheet) of
        (Values sv, Values pv, Values dv, Values av) \<Rightarrow>
          (let students = slice1 (rows_of sv);
               performances = slice1 (rows_of pv);
               disciplines = slice1 (rows_of dv);
               achievements = slice1 (rows_of av)
           in case find (\<lambda>s. cell s 0 = Some studentId) students of
                None \<Rightarrow> Fail 404 ''Student not found''
              | Some student \<Rightarrow>
                 (let performance =
                        (case find (\<lambda>p. cell p 0 = Some studentId) performances of
                           None \<Rightarrow> [] | Some p \<Rightarrow> p);
                      disciplineRecords =
                        map (\<lambda>d. \<lparr>discipline_record.id' = cell d 0, date = cell d 1,
                                   incident = cell d 4,
                                   action = or_else (cell d 5) ''Verbal Warning''\<rparr>)
                          (filter (\<lambda>d. cell d 3 = Some studentId) disciplines);
                      studentAchievements =
                        map (\<lambda>a. cell a 3)
                          (filter (\<lambda>a. cell a 2 = cell student 1) achievements)
                  in Ok \<lparr>student_details.rollNo = cell student 0, name = cell student 1,
                         gender = cell student 2, category = cell student 3,
                         serviceCategory = cell student 4, contact = cell student 5,
                         class' = or_else (cell student 6) ''X-A'',
                         performanceReport = or_else (cell performance 6)
                           ''The student shows consistent effort in academics.'',
                         strengths = comma_list (cell performance 3),
                         weaknesses = comma_list (cell performance 4),
                         suggestions = comma_list (cell performance 5),
                         disciplineRecords = disciplineRecords,
                         achievements = studentAchievements\<rparr>))
      | _ \<Rightarrow> Fail 500 ''Server error fetching student details'')"

text \<open>A number in a JSON body: \<^verbatim>\<open>NaN\<close> and the infinities are written \<^verbatim>\<open>null\<close>.\<close>

fun json_num :: "jsnum \<Rightarrow> json" where
  "json_num (Fin r) = JNum r"
| "json_num x = JNull"

text \<open>
  \<^verbatim>\<open>Array.from(new Set(xs))\<close>: the distinct values of \<open>xs\<close> in the order of their
  first occurrence; \<^verbatim>\<open>new Set(xs).size\<close> is its length.
\<close>

fun js_set :: "'a list \<Rightarrow> 'a list" where
  "js_set [] = []"
| "js_set (x # xs) = x # filter (\<lambda>y. y \<noteq> x) (js_set xs)"

text \<open>\<^verbatim>\<open>row[i] || null\<close>: here \<open>None\<close> is \<^verbatim>\<open>null\<close>.\<close>

definition or_null :: "string option \<Rightarrow> string option" where
  "or_null c = (case c of None \<Rightarrow> None | Some s \<Rightarrow> if s = [] then None else Some s)"

section \<open>GET /api/syllabus-data\<close>

record topic =
  id' :: "string option"
  unit' :: "string option"
  name :: "string option"
  expectedHours :: "string option"
  timeSpent :: "string option"
  status :: "string option"
  startDate :: "string option"
  completionDate :: "string option"

record unit_completion =
  unit' :: "string option"
  percentage :: jsnum

record time_allocation =
  topic :: string
  planned :: jsnum
  actual :: jsnum

record upcoming_topic =
  id' :: "string option"
  name :: "string option"
  unit' :: "string option"
  plannedStart :: string
  estimatedHours :: "string option"

record syllabus_body =
  completionPercentage :: jsnum
  completedUnits :: nat
  totalUnits :: nat
  remainingDays :: nat
  topics :: "topic list"
  unitCompletion :: "unit_completion list"
  timeAllocation :: "time_allocation list"
  upcomingTopics :: "upcoming_topic list"

text \<open>
  \<^verbatim>\<open>topicRows.reduce((sum, row) => sum + (parseInt(row[i]) || 0), 0)\<close>. The runtime's
  \<^verbatim>\<open>parseInt\<close>, applied to a cell or to \<^verbatim>\<open>undefined\<close>, is the parameter
  \<open>parseInt\<close>.
\<close>

definition sum_hours :: "(string option \<Rightarrow> jsnum) \<Rightarrow> nat \<Rightarrow> row list \<Rightarrow> jsnum" where
  "sum_hours parseInt i topicRows =
     fold (\<lambda>row sum. js_add sum (js_or (parseInt (cell row i)) (Fin 0))) topicRows (Fin 0)"

text \<open>
  \<^verbatim>\<open>topicGroups.map(topic => ...)\<close>, with the number of draws made so far. A draw is
  made only when \<^verbatim>\<open>actual\<close> is falsy:
  \<^verbatim>\<open>actual || Math.floor(planned * (0.8 + Math.random() * 0.4))\<close>.
\<close>

fun timeAllocation_of ::
  "(string option \<Rightarrow> jsnum) \<Rightarrow> rng \<Rightarrow> nat \<Rightarrow> row list \<Rightarrow> string list \<Rightarrow>
   time_allocation list \<times> nat" where
  "timeAllocation_of parseInt rnd n syllabusData [] = ([], n)"
| "timeAllocation_of parseInt rnd n syllabusData (topicGroup # topicGroups) =
     (let topicRows = filter (\<lambda>row. or_else (cell row 8) ''Other'' = topicGroup) syllabusData;
          planned = sum_hours parseInt 3 topicRows;
          actual = sum_hours parseInt 4 topicRows;
          (a, n') = (if js_truthy actual then (actual, n)
                     else (js_floor (js_times planned (8 / 10 + rnd n * (4 / 10))), Suc n));
          (rest, n'') = timeAllocation_of parseInt rnd n' syllabusData topicGroups
      in (\<lparr>time_allocation.topic = topicGroup, planned = planned, actual = a\<rparr> # rest, n''))"

definition syllabus_data ::
  "(string option \<Rightarrow> jsnum) \<Rightarrow> rng \<Rightarrow> fetched \<Rightarrow> syllabus_body reply" where
  "syllabus_data parseInt rnd syllabusSheet =
     (case syllabusSheet of
        FetchFailed \<Rightarrow> Fail 500 ''Server error fetching syllabus data''
      | Values v \<Rightarrow>
         (let syllabusData = slice1 (rows_of v);
              totalUnits = length (js_set (map (\<lambda>row. cell row 1) syllabusData));
              completedUnits = length (js_set (map (\<lambda>row. cell row 1)
                  (filter (\<lambda>row. cell row 5 = Some ''Completed'') syllabusData)));
              totalTopics = length syllabusData;
              completedTopics = length (filter (\<lambda>row. cell row 5 = Some ''Completed'') syllabusData);
              completionPercentage = percent completedTopics totalTopics;
              remainingDays = 45;
              topics = map (\<lambda>row.
                  \<lparr>topic.id' = cell row 0, unit' = cell row 1, name = cell row 2,
                   expectedHours = cell row 3, timeSpent = or_null (cell row 4),
                   status = cell row 5, startDate = or_null (cell row 6),
                   completionDate = or_null (cell row 7)\<rparr>) syllabusData;
              units = js_set (map (\<lambda>row. cell row 1) syllabusData);
              unitCompletion = map (\<lambda>unit.
                  (let unitTopics = filter (\<lambda>row. cell row 1 = unit) syllabusData;
                       unitCompletedTopics =
                         filter (\<lambda>row. cell row 5 = Some ''Completed'') unitTopics
                   in \<lparr>unit_completion.unit' = unit,
                        percentage = percent (length unitCompletedTopics) (length unitTopics)\<rparr>))
                units;
              topicGroups = js_set (map (\<lambda>row. or_else (cell row 8) ''Other'') syllabusData);
              (timeAllocation, n) = timeAllocation_of parseInt rnd 0 syllabusData topicGroups;
              upcomingTopics = map (\<lambda>t.
                  \<lparr>upcoming_topic.id' = topic.id' t, name = topic.name t, unit' = topic.unit' t,
                   plannedStart = or_else (topic.startDate t) ''Next Week'',
                   estimatedHours = topic.expectedHours t\<rparr>)
                (take 5 (filter (\<lambda>t. topic.status t = Some ''Pending'') topics))
          in Ok \<lparr>completionPercentage = completionPercentage,
                 completedUnits = completedUnits, totalUnits = totalUnits,
                 remainingDays = remainingDays, topics = topics,
                 unitCompletion = unitCompletion, timeAllocation = timeAllocation,
                 upcomingTopics = upcomingTopics\<rparr>))"

section \<open>GET /api/assessments-data\<close>

text \<open>
  \<^verbatim>\<open>xs.sort(cmp)\<close>. The comparator's result \<^verbatim>\<open>NaN\<close> counts as \<open>0\<close>, and the sort
  is stable. For a consistent comparator the result is the one stable sorted order, which
  the insertion sort below computes. For an inconsistent comparator (here: only when
  some date does not parse) JavaScript leaves the order to the engine; the model's order
  is then one of those allowed.
\<close>

fun js_positive :: "jsnum \<Rightarrow> bool" where
  "js_positive (Fin r) = (0 < r)"
| "js_positive PosInf = True"
| "js_positive x = False"

fun insort_js :: "('a \<Rightarrow> 'a \<Rightarrow> jsnum) \<Rightarrow> 'a \<Rightarrow> 'a list \<Rightarrow> 'a list" where
  "insort_js cmp x [] = [x]"
| "insort_js cmp x (y # ys) =
     (if js_positive (cmp x y) then y # insort_js cmp x ys else x # y # ys)"

definition js_sort :: "('a \<Rightarrow> 'a \<Rightarrow> jsnum) \<Rightarrow> 'a list \<Rightarrow> 'a list" where
  "js_sort cmp xs = foldr (insort_js cmp) xs []"

text \<open>
  \<^verbatim>\<open>new Date(a) - new Date(b)\<close> for two cells. The runtime's parser of date strings is
  the parameter \<open>parseDate\<close>: the time value in milliseconds, or \<open>None\<close> for an invalid
  date (as for \<^verbatim>\<open>undefined\<close>), whose difference with anything is \<^verbatim>\<open>NaN\<close>.
\<close>

definition date_minus ::
  "(string option \<Rightarrow> int option) \<Rightarrow> string option \<Rightarrow> string option \<Rightarrow> jsnum" where
  "date_minus parseDate a b =
     (case (parseDate a, parseDate b) of
        (Some x, Some y) \<Rightarrow> Fin (of_int (x - y))
      | _ \<Rightarrow> NaN)"

record assessment =
  id' :: "string option"
  date :: "string option"
  title :: "string option"
  type' :: "string option"
  maxScore :: "string option"
  average :: "jsnum option"
  status :: "string option"

record next_assessment =
  date :: "string option"
  name :: "string option"

record trend_point =
  assessment :: "string option"
  average :: "jsnum option"

record assessments_body =
  nextAssessment :: next_assessment
  lastAssessmentAverage :: "jsnum option"
  pendingGrades :: nat
  assessments :: "assessment list"
  gradeDistribution :: "grade_count list"
  performanceTrend :: "trend_point list"

text \<open>
  The truthiness of \<^verbatim>\<open>a.average\<close>: \<^verbatim>\<open>null\<close> (\<open>None\<close>), \<open>0\<close> and \<^verbatim>\<open>NaN\<close> are
  falsy.
\<close>

definition has_average :: "assessment \<Rightarrow> bool" where
  "has_average a = (case assessment.average a of None \<Rightarrow> False | Some x \<Rightarrow> js_truthy x)"

text \<open>
  One element of \<^verbatim>\<open>assessments.map(...)\<close>. The runtime's \<^verbatim>\<open>parseFloat\<close>, applied
  to a cell or to \<^verbatim>\<open>undefined\<close>, is the parameter \<open>parseFloat\<close>.
\<close>

definition assessment_of_row :: "(string option \<Rightarrow> jsnum) \<Rightarrow> row list \<Rightarrow> row \<Rightarrow> assessment" where
  "assessment_of_row parseFloat grades row =
     (let assessmentGrades = filter (\<lambda>g. cell g 0 = cell row 0) grades;
          average =
            (if length assessmentGrades > 0
             then (let totalPercentage =
                         fold (\<lambda>g sum. js_add sum (js_or (parseFloat (cell g 3)) (Fin 0)))
                           assessmentGrades (Fin 0)
                   in Some (js_round (js_div_count totalPercentage (length assessmentGrades))))
             else None)
      in \<lparr>assessment.id' = cell row 0, date = cell row 1, title = cell row 2,
           type' = cell row 3, maxScore = cell row 4, average = average,
           status = cell row 5\<rparr>)"

definition by_date ::
  "(string option \<Rightarrow> int option) \<Rightarrow> assessment \<Rightarrow> assessment \<Rightarrow> jsnum" where
  "by_date parseDate a b = date_minus parseDate (assessment.date a) (assessment.date b)"

definition sample_trend :: "trend_point list" where
  "sample_trend =
     [\<lparr>assessment = Some ''Unit Test 1'', average = Some (Fin 72)\<rparr>,
      \<lparr>assessment = Some ''Mid Term'', average = Some (Fin 76)\<rparr>,
      \<lparr>assessment = Some ''Unit Test 2'', average = Some (Fin 78)\<rparr>,
      \<lparr>assessment = Some ''Assignment 3'', average = Some (Fin 82)\<rparr>]"

text \<open>
  Both sheets are fetched before any row is read. \<^verbatim>\<open>assessmentsData.sort(...)\<close> sorts
  in place, so everything after it reads the sorted array. The object found for
  \<^verbatim>\<open>nextAssessment\<close> has no \<^verbatim>\<open>name\<close>, so \<^verbatim>\<open>title || name\<close> is the title when
  that is truthy and \<^verbatim>\<open>undefined\<close> otherwise.
\<close>

definition assessments_data ::
  "(string option \<Rightarrow> jsnum) \<Rightarrow> (string option \<Rightarrow> int option) \<Rightarrow> fetched \<Rightarrow> fetched \<Rightarrow>
   assessments_body reply" where
  "assessments_data parseFloat parseDate assessmentsSheet gradesSheet =
     (case (assessmentsSheet, gradesSheet) of
        (Values av, Values gv) \<Rightarrow>
          (let assessments = slice1 (rows_of av);
               grades = slice1 (rows_of gv);
               assessmentsData =
                 js_sort (by_date parseDate) (map (assessment_of_row parseFloat grades) assessments);
               nextAssessment =
                 (case find (\<lambda>a. assessment.status a = Some ''Scheduled'') assessmentsData of
                    Some a \<Rightarrow> \<lparr>next_assessment.date = assessment.date a,
                                name = or_null (assessment.title a)\<rparr>
                  | None \<Rightarrow> \<lparr>next_assessment.date = Some ''Apr 15'',
                              name = Some ''Unit Test 3''\<rparr>);
               lastAssessmentAverage =
                 (case js_sort (\<lambda>a b. by_date parseDate b a)
                         (filter (\<lambda>a. assessment.status a = Some ''Completed'' \<and> has_average a)
                            assessmentsData) of
                    [] \<Rightarrow> Some (Fin 76)
                  | lastCompletedAssessment # _ \<Rightarrow> assessment.average lastCompletedAssessment);
               pendingGrades =
                 length (filter (\<lambda>a. assessment.status a = Some ''Completed'' \<and> \<not> has_average a)
                           assessmentsData);
               completedAssessments =
                 take 5 (js_sort (by_date parseDate)
                   (filter (\<lambda>a. assessment.status a = Some ''Completed'' \<and> has_average a)
                      assessmentsData));
               performanceTrend =
                 map (\<lambda>a. \<lparr>assessment = assessment.title a, average = assessment.average a\<rparr>)
                   completedAssessments
           in Ok \<lparr>nextAssessment = nextAssessment,
                  lastAssessmentAverage = lastAssessmentAverage,
                  pendingGrades = pendingGrades,
                  assessments = assessmentsData,
                  gradeDistribution = gradeDistribution_of grades,
                  performanceTrend =
                    (if length performanceTrend < 3 then performanceTrend @ sample_trend
                     else performanceTrend)\<rparr>)
      | _ \<Rightarrow> Fail 500 ''Server error fetching assessments data'')"

section \<open>Dates of the JavaScript runtime\<close>

text \<open>
  \<^verbatim>\<open>Date\<close> as ECMAScript defines it (ECMA-262, Date objects): a time value is a number
  of milliseconds since 1970-01-01T00:00:00Z, and the calendar is the proleptic
  Gregorian one. The names are the standard's. A \<^verbatim>\<open>Date\<close> made by
  \<^verbatim>\<open>new Date()\<close> holds a time value; \<^verbatim>\<open>setDate\<close> can leave an invalid date,
  which is \<open>None\<close>.
\<close>

definition msPerDay :: int where
  "msPerDay = 86400000"

definition Day :: "int \<Rightarrow> int" where
  "Day t = t div msPerDay"

definition TimeWithinDay :: "int \<Rightarrow> int" where
  "TimeWithinDay t = t mod msPerDay"

definition DaysInYear :: "int \<Rightarrow> int" where
  "DaysInYear y =
     (if y mod 4 \<noteq> 0 then 365 else if y mod 100 \<noteq> 0 then 366
      else if y mod 400 \<noteq> 0 then 365 else 366)"

definition DayFromYear :: "int \<Rightarrow> int" where
  "DayFromYear y =
     365 * (y - 1970) + (y - 1969) div 4 - (y - 1901) div 100 + (y - 1601) div 400"

text \<open>Facts about \<open>DayFromYear\<close> that the termination of the year search rests on.\<close>

lemma div_step:
  fixes x k :: int
  assumes "0 < k"
  shows "(x + 1) div k = x div k + (if (x + 1) mod k = 0 then 1 else 0)"
proof -
  define q where "q = x div k"
  define r where "r = x mod k"
  have x: "x + 1 = k * q + (r + 1)" by (simp add: q_def r_def)
  have r: "0 \<le> r" "r < k" using assms by (simp_all add: r_def)
  have k: "k \<noteq> 0" using assms by simp
  have d: "(x + 1) div k = q + (r + 1) div k"
    unfolding x by (rule div_mult_self4[OF k])
  have m: "(x + 1) mod k = (r + 1) mod k"
    unfolding x by (rule mod_mult_self4)
  show ?thesis
  proof (cases "r + 1 = k")
    case True
    then show ?thesis using d m k by (simp add: q_def)
  next
    case False
    with r have "r + 1 < k" "0 \<le> r + 1" by simp_all
    then have "(r + 1) div k = 0" "(r + 1) mod k = r + 1" by simp_all
    then show ?thesis using d m r by (simp add: q_def)
  qed
qed

lemma mod_shift:
  fixes y k n :: int
  assumes "n mod k = 0"
  shows "(y - n) mod k = y mod k"
proof -
  have "(y - n) mod k = (y mod k - n mod k) mod k" by (simp only: mod_diff_eq)
  also have "\<dots> = y mod k" by (simp add: assms)
  finally show ?thesis .
qed

lemma DaysInYear_ge: "365 \<le> DaysInYear y" "DaysInYear y \<le> 366"
  by (simp_all add: DaysInYear_def)

lemma DayFromYear_Suc: "DayFromYear (y + 1) = DayFromYear y + DaysInYear y"
proof -
  have a: "(y + 1 - 1969) div 4 = (y - 1969) div 4 + (if y mod 4 = 0 then 1 else 0)"
    using div_step[of 4 "y - 1969"] mod_shift[of 1968 4 y] by (simp add: algebra_simps) 
  have b: "(y + 1 - 1901) div 100 = (y - 1901) div 100 + (if y mod 100 = 0 then 1 else 0)"
    using div_step[of 100 "y - 1901"] mod_shift[of 1900 100 y] by (simp add: algebra_simps) 
  have c: "(y + 1 - 1601) div 400 = (y - 1601) div 400 + (if y mod 400 = 0 then 1 else 0)"
    using div_step[of 400 "y - 1601"] mod_shift[of 1600 400 y] by (simp add: algebra_simps) 
  have d: "y mod 400 = 0 \<Longrightarrow> y mod 100 = 0" "y mod 100 = 0 \<Longrightarrow> y mod 4 = 0"
    by (auto simp: mod_eq_0_iff_dvd elim: dvd_trans[rotated])
  show ?thesis
    unfolding DayFromYear_def DaysInYear_def a b c using d by auto
qed

text \<open>
  \<open>YearFromTime t\<close> is the largest \<open>y\<close> with \<open>TimeFromYear y \<le> t\<close>: the search
  \<open>year_from\<close> goes up from a year that is not after it.
\<close>

function year_from :: "int \<Rightarrow> int \<Rightarrow> int" where
  "year_from y d = (if DayFromYear (y + 1) \<le> d then year_from (y + 1) d else y)"
  by pat_completeness auto
termination
proof (relation "measure (\<lambda>(y, d). nat (d - DayFromYear (y + 1) + 1))")
  show "wf (measure (\<lambda>(y, d). nat (d - DayFromYear (y + 1) + 1)))" by simp
next
  fix y d :: int
  assume "DayFromYear (y + 1) \<le> d"
  moreover have "DayFromYear (y + 1) < DayFromYear (y + 1 + 1)"
    using DayFromYear_Suc[of "y + 1"] DaysInYear_ge[of "y + 1"] by simp
  ultimately show "((y + 1, d), (y, d)) \<in> measure (\<lambda>(y, d). nat (d - DayFromYear (y + 1) + 1))"
    by simp
qed

declare year_from.simps [simp del]

definition YearFromDay :: "int \<Rightarrow> int" where
  "YearFromDay d = year_from (1970 + (if 0 \<le> d then d div 366 else d div 365)) d"

definition YearFromTime :: "int \<Rightarrow> int" where
  "YearFromTime t = YearFromDay (Day t)"

definition InLeapYear :: "int \<Rightarrow> int" where
  "InLeapYear t = (if DaysInYear (YearFromTime t) = 366 then 1 else 0)"

definition DayWithinYear :: "int \<Rightarrow> int" where
  "DayWithinYear t = Day t - DayFromYear (YearFromTime t)"

text \<open>The month (0 to 11) and the day of the month of day \<open>d\<close> of a year, \<open>l\<close> its leap day.\<close>

definition month_of :: "int \<Rightarrow> int \<Rightarrow> int" where
  "month_of d l =
     (if d < 31 then 0 else if d < 59 + l then 1 else if d < 90 + l then 2
      else if d < 120 + l then 3 else if d < 151 + l then 4 else if d < 181 + l then 5
      else if d < 212 + l then 6 else if d < 243 + l then 7 else if d < 273 + l then 8
      else if d < 304 + l then 9 else if d < 334 + l then 10 else 11)"

definition month_start :: "int \<Rightarrow> int \<Rightarrow> int" where
  "month_start m l =
     (if m = 0 then 0 else if m = 1 then 31 else if m = 2 then 59 + l
      else if m = 3 then 90 + l else if m = 4 then 120 + l else if m = 5 then 151 + l
      else if m = 6 then 181 + l else if m = 7 then 212 + l else if m = 8 then 243 + l
      else if m = 9 then 273 + l else if m = 10 then 304 + l else 334 + l)"

definition MonthFromTime :: "int \<Rightarrow> int" where
  "MonthFromTime t = month_of (DayWithinYear t) (InLeapYear t)"

definition DateFromTime :: "int \<Rightarrow> int" where
  "DateFromTime t =
     DayWithinYear t - month_start (MonthFromTime t) (InLeapYear t) + 1"

definition WeekDay :: "int \<Rightarrow> int" where
  "WeekDay t = (Day t + 4) mod 7"

definition HourFromTime :: "int \<Rightarrow> int" where
  "HourFromTime t = (t div 3600000) mod 24"

definition MinFromTime :: "int \<Rightarrow> int" where
  "MinFromTime t = (t div 60000) mod 60"

definition SecFromTime :: "int \<Rightarrow> int" where
  "SecFromTime t = (t div 1000) mod 60"

definition msFromTime :: "int \<Rightarrow> int" where
  "msFromTime t = t mod 1000"

text \<open>
  \<open>MakeDay year month date\<close>: the day number of the first of the month, plus
  \<open>date - 1\<close>; a month outside 0 to 11 carries into the year.
\<close>

definition MakeDay :: "int \<Rightarrow> int \<Rightarrow> int \<Rightarrow> int" where
  "MakeDay year month dt =
     (let ym = year + month div 12; mn = month mod 12
      in DayFromYear ym + month_start mn (if DaysInYear ym = 366 then 1 else 0) + dt - 1)"

definition MakeDate :: "int \<Rightarrow> int \<Rightarrow> int" where
  "MakeDate day time = day * msPerDay + time"

definition TimeClip :: "int \<Rightarrow> int option" where
  "TimeClip t = (if \<bar>t\<bar> > 8640000000000000 then None else Some t)"

text \<open>
  The host's time zone. \<open>Fixed off\<close> is a zone whose local time is always \<open>off\<close>
  milliseconds ahead of UTC (\<open>Fixed 0\<close> is UTC). \<open>Shift x a b\<close> is a zone with one change of
  offset, as at the start or the end of daylight saving time: \<open>a\<close> milliseconds ahead of
  UTC before the instant \<open>x\<close>, \<open>b\<close> from \<open>x\<close> on. \<open>LocalTZA z t isUTC\<close> is the standard's
  offset for the UTC time \<open>t\<close> or, when \<open>isUTC\<close> is false, for the local time \<open>t\<close>; a local
  time that is skipped or repeated at the change is read with the offset before the
  change.
\<close>

datatype zone = Fixed int | Shift int int int

fun LocalTZA :: "zone \<Rightarrow> int \<Rightarrow> bool \<Rightarrow> int" where
  "LocalTZA (Fixed off) t isUTC = off"
| "LocalTZA (Shift x a b) t isUTC =
     (if isUTC then (if t < x then a else b)
      else (if t < x + max a b then a else b))"

definition LocalTime :: "zone \<Rightarrow> int \<Rightarrow> int" where
  "LocalTime z t = t + LocalTZA z t True"

definition UTC :: "zone \<Rightarrow> int \<Rightarrow> int" where
  "UTC z t = t - LocalTZA z t False"

text \<open>The methods of \<^verbatim>\<open>Date.prototype\<close> that the handlers call, on a valid date.\<close>

definition getDate :: "zone \<Rightarrow> int \<Rightarrow> int" where
  "getDate z t = DateFromTime (LocalTime z t)"

definition getDay :: "zone \<Rightarrow> int \<Rightarrow> int" where
  "getDay z t = WeekDay (LocalTime z t)"

definition getMonth :: "zone \<Rightarrow> int \<Rightarrow> int" where
  "getMonth z t = MonthFromTime (LocalTime z t)"

definition setDate :: "zone \<Rightarrow> int \<Rightarrow> int \<Rightarrow> int option" where
  "setDate z t dt =
     (let lt = LocalTime z t;
          newDate = MakeDate (MakeDay (YearFromTime lt) (MonthFromTime lt) dt) (TimeWithinDay lt)
      in TimeClip (UTC z newDate))"

text \<open>\<open>pad k n\<close>: the last \<open>k\<close> decimal digits of \<open>n\<close>, zeros included.\<close>

primrec pad :: "nat \<Rightarrow> nat \<Rightarrow> string" where
  "pad 0 n = []"
| "pad (Suc k) n = pad k (n div 10) @ [digit_char (n mod 10)]"

text \<open>
  \<^verbatim>\<open>toISOString()\<close>: \<open>YYYY-MM-DDTHH:mm:ss.sssZ\<close> in UTC, the year with a sign and
  six digits when it is not between 0 and 9999.
\<close>

definition toISOString :: "int \<Rightarrow> string" where
  "toISOString t =
     (let y = YearFromTime t
      in (if 0 \<le> y \<and> y \<le> 9999 then pad 4 (nat y)
          else (if y < 0 then CHR ''-'' else CHR ''+'') # pad 6 (nat \<bar>y\<bar>))
         @ ''-'' @ pad 2 (nat (MonthFromTime t + 1)) @ ''-'' @ pad 2 (nat (DateFromTime t))
         @ ''T'' @ pad 2 (nat (HourFromTime t)) @ '':'' @ pad 2 (nat (MinFromTime t))
         @ '':'' @ pad 2 (nat (SecFromTime t)) @ ''.'' @ pad 3 (nat (msFromTime t)) @ ''Z'')"

text \<open>\<^verbatim>\<open>d.toISOString().slice(0, 10)\<close>\<close>

definition iso_date :: "int \<Rightarrow> string" where
  "iso_date t = take 10 (toISOString t)"

text \<open>An exception thrown inside a handler; every handler catches it and answers 500.\<close>

datatype js_error = RangeError | TypeError

text \<open>The results of a loop body run on each element in turn, up to the first exception.\<close>

fun collect :: "('e + 'a) list \<Rightarrow> 'e + 'a list" where
  "collect [] = Inr []"
| "collect (Inl e # rs) = Inl e"
| "collect (Inr x # rs) = (case collect rs of Inl e \<Rightarrow> Inl e | Inr xs \<Rightarrow> Inr (x # xs))"

section \<open>GET /api/calendar-data\<close>

text \<open>
  \<^verbatim>\<open>s.toLowerCase()\<close>, on the ASCII letters; a \<open>string\<close> is a list of 8-bit
  characters, so the letters beyond ASCII have no counterpart here and are left as they
  are.
\<close>

definition lower_char :: "char \<Rightarrow> char" where
  "lower_char c =
     (case map_of (zip ''ABCDEFGHIJKLMNOPQRSTUVWXYZ'' ''abcdefghijklmnopqrstuvwxyz'') c of
        None \<Rightarrow> c
      | Some l \<Rightarrow> l)"

definition toLowerCase :: "string \<Rightarrow> string" where
  "toLowerCase s = map lower_char s"

record event =
  id' :: "string option"
  date :: "string option"
  title :: "string option"
  type' :: "string option"
  time :: string
  description :: string

definition event_of_row :: "row \<Rightarrow> event" where
  "event_of_row row =
     \<lparr>event.id' = cell row 0, date = cell row 1, title = cell row 2, type' = cell row 3,
      time = or_else (cell row 4) ''All Day'', description = or_else (cell row 5) ''''\<rparr>"

record day_event =
  id' :: "string option"
  title :: "string option"
  type' :: string
  time :: string

record day_cell =
  date :: int
  isCurrentMonth :: bool
  isToday :: bool
  events :: "day_event list"

text \<open>
  \<^verbatim>\<open>events.filter(event => event.date === dateStr).map(event => ({ ... }))\<close>:
  \<^verbatim>\<open>event.type.toLowerCase()\<close> throws a \<^verbatim>\<open>TypeError\<close> when the event has no type
  cell. \<open>events'\<close> is the array \<^verbatim>\<open>events\<close>.
\<close>

definition dayEvents_of :: "event list \<Rightarrow> string \<Rightarrow> js_error + day_event list" where
  "dayEvents_of events' dateStr =
     collect (map (\<lambda>event.
         (case event.type' event of
            None \<Rightarrow> Inl TypeError
          | Some ty \<Rightarrow> Inr \<lparr>day_event.id' = event.id' event, title = event.title event,
                            type' = toLowerCase ty, time = event.time event\<rparr>))
       (filter (\<lambda>event. event.date event = Some dateStr) events'))"

text \<open>
  The date of the cell of \<open>week\<close> and \<open>day\<close>: \<^verbatim>\<open>currentDate\<close> after
  \<^verbatim>\<open>currentDate.setDate(today.getDate() - today.getDay() + day + (week * 7))\<close>.
\<close>

definition currentDate_of :: "zone \<Rightarrow> int \<Rightarrow> nat \<Rightarrow> nat \<Rightarrow> int option" where
  "currentDate_of z today week day =
     setDate z today (getDate z today - getDay z today + int day + int week * 7)"

text \<open>
  The body of the inner loop: the cell pushed for \<open>week\<close> and \<open>day\<close>.
  \<^verbatim>\<open>toISOString\<close> throws a \<^verbatim>\<open>RangeError\<close> on an invalid date.
\<close>

definition calendar_cell :: "zone \<Rightarrow> event list \<Rightarrow> int \<Rightarrow> nat \<Rightarrow> nat \<Rightarrow> js_error + day_cell" where
  "calendar_cell z events' today week day =
     (case currentDate_of z today week day of
        None \<Rightarrow> Inl RangeError
      | Some currentDate \<Rightarrow>
          (let dateStr = iso_date currentDate;
               dateNum = getDate z currentDate
           in case dayEvents_of events' dateStr of
                Inl e \<Rightarrow> Inl e
              | Inr dayEvents \<Rightarrow>
                  Inr \<lparr>day_cell.date = dateNum,
                       isCurrentMonth = (getMonth z currentDate = getMonth z today),
                       isToday = (dateStr = iso_date today),
                       events = dayEvents\<rparr>))"

text \<open>The two loops: five weeks of seven days.\<close>

definition calendarData_of :: "zone \<Rightarrow> event list \<Rightarrow> int \<Rightarrow> js_error + day_cell list list" where
  "calendarData_of z events' today =
     collect (map (\<lambda>week. collect (map (\<lambda>day. calendar_cell z events' today week day) [0 ..< 7]))
       [0 ..< 5])"

record calendar_body =
  calendarData :: "day_cell list list"
  upcomingEvents :: "event list"

text \<open>
  \<open>today\<close> is \<^verbatim>\<open>new Date()\<close>, the time value of the clock; \<open>z\<close> is the host's time
  zone. \<^verbatim>\<open>new Date(event.date) >= today\<close> is false for a date that does not parse.
\<close>

definition calendar_data ::
  "zone \<Rightarrow> (string option \<Rightarrow> int option) \<Rightarrow> int \<Rightarrow> fetched \<Rightarrow> calendar_body reply" where
  "calendar_data z parseDate today eventsSheet =
     (case eventsSheet of
        FetchFailed \<Rightarrow> Fail 500 ''Server error fetching calendar data''
      | Values v \<Rightarrow>
          (let events = map event_of_row (slice1 (rows_of v))
           in case calendarData_of z events today of
                Inl e \<Rightarrow> Fail 500 ''Server error fetching calendar data''
              | Inr grid \<Rightarrow>
                  Ok \<lparr>calendarData = grid,
                      upcomingEvents =
                        take 5 (js_sort
                          (\<lambda>a b. date_minus parseDate (event.date a) (event.date b))
                          (filter (\<lambda>event.
                               (case parseDate (event.date event) of
                                  None \<Rightarrow> False
                                | Some t \<Rightarrow> today \<le> t)) events))\<rparr>))"

section \<open>GET /api/attendance-data: the weekly average\<close>

text \<open>
  The seven date strings put in the set \<^verbatim>\<open>last7Days\<close>, for \<open>i\<close> from 0 to 6:
  \<^verbatim>\<open>d.setDate(d.getDate() - i)\<close> on a copy of \<^verbatim>\<open>today7\<close>, then
  \<^verbatim>\<open>d.toISOString().slice(0, 10)\<close>.
\<close>

definition last7Days :: "zone \<Rightarrow> int \<Rightarrow> js_error + string list" where
  "last7Days z today7 =
     collect (map (\<lambda>i. (case setDate z today7 (getDate z today7 - int i) of
                           None \<Rightarrow> Inl RangeError
                         | Some d \<Rightarrow> Inr (iso_date d)))
       [0 ..< 7])"

text \<open>
  \<^verbatim>\<open>weeklyAverage\<close>, from \<^verbatim>\<open>attendance\<close> (the rows of Attendance after the
  header), the clock \<open>today7\<close> and the time zone:
  \<^verbatim>\<open>Math.round((totalPresent7Days / totalRecords7Days) * 100) || 90\<close>.
  \<^verbatim>\<open>last7Days.has(a[1])\<close> is false for a row without a date cell.
\<close>

definition weeklyAverage :: "zone \<Rightarrow> int \<Rightarrow> row list \<Rightarrow> js_error + jsnum" where
  "weeklyAverage z today7 attendance =
     (case last7Days z today7 of
        Inl e \<Rightarrow> Inl e
      | Inr days \<Rightarrow>
          (let last7DaysAttendance =
                 filter (\<lambda>a. (case cell a 1 of None \<Rightarrow> False | Some s \<Rightarrow> s \<in> set days))
                   attendance;
               totalPresent7Days =
                 length (filter (\<lambda>a. cell a 3 = Some ''Present'') last7DaysAttendance);
               totalRecords7Days = length last7DaysAttendance
           in Inr (js_or (percent totalPresent7Days totalRecords7Days) (Fin 90))))"

section \<open>Properties\<close>

subsection \<open>POST /api/auth\<close>

lemma api_auth_401_iff:
  "api_auth employeeId (Values v) now = Fail 401 ''Invalid Employee ID'' \<longleftrightarrow>
     \<not> falsy_field employeeId \<and>
     list_all (\<lambda>row. \<not> cell_is (cell row 0) employeeId) (rows_of v)"
  by (auto simp: api_auth_def find_None_iff find_Some_iff list_all_iff split: option.splits)

text \<open>
  Claim C1. The claim: the answer is 401 exactly when no data row (rows 1..n) starts with
  the employee id, so that the header row's first cell is rejected. The handler searches
  all rows, the header included: on the table below the id \<open>Employee ID\<close>, which is the
  header's first cell and the first cell of no data row, is answered 200 with a token.
\<close>

theorem api_auth_accepts_header_cell:
  "api_auth (Text ''Employee ID'')
     (Values (Some [[''Employee ID'', ''Name''], [''T001'', ''Asha'']])) 1700000000000
   = Ok \<lparr>success = True, message = ''Authentication successful'',
          token = ''sample-token-1700000000000''\<rparr>
   \<and> list_all (\<lambda>row. cell row 0 \<noteq> Some ''Employee ID'')
        (slice1 [[''Employee ID'', ''Name''], [''T001'', ''Asha'']])"
  by (simp add: api_auth_def rows_of_def cell_def slice1_def show_int_def show_nat.simps
      digit_char_def)

subsection \<open>Rows shorter than the schema\<close>

lemma cell_past_end: "length r \<le> i \<Longrightarrow> cell r i = None"
  by (simp add: cell_def)

lemma or_else_None: "or_else None d = d"
  by (simp add: or_else_def)

text \<open>
  Claim C3, as stated, fails at the one-cell row \<open>[101]\<close> of Students: the fields past
  the row's end that the handler reads without \<^verbatim>\<open>||\<close> are \<^verbatim>\<open>undefined\<close>, and the
  JSON object sent has no such keys; they are neither the empty string nor
  \<^verbatim>\<open>null\<close>. Only \<open>status\<close> has a declared default.
\<close>

theorem short_row_fields_absent:
  "student_json (student_of_row [''101'']) =
     JObj [(''rollNo'', JStr ''101''), (''status'', JStr ''Active'')]
   \<and> student.name (student_of_row [''101'']) = None
   \<and> student.name (student_of_row [''101'']) \<noteq> Some []"
  by (simp add: student_json_def student_of_row_def cell_def json_object_def json_cell_def
      or_else_def map_filter_def)

text \<open>
  Claim C3, amended. Mapping never raises: both handlers answer 200 with one record per
  data row whatever the rows' lengths (the only failure is the fetch). In a row of
  Students with fewer than seven cells \<open>status\<close> is \<open>Active\<close>, and in every row of
  Discipline with fewer than six cells \<open>actionTaken\<close> is \<open>Verbal Warning\<close>; every
  other field whose position is past the row's end is \<^verbatim>\<open>undefined\<close> (\<open>None\<close>), which
  the JSON body leaves out.
\<close>

theorem short_row_mapping:
  "enrollment_data (Values v) = Ok (map student_of_row (slice1 (rows_of v)))
   \<and> discipline_data (Values v) = Ok (map discipline_of_row (slice1 (rows_of v)))
   \<and> (length r < 7 \<longrightarrow> student.status (student_of_row r) = ''Active'')
   \<and> (length r < 6 \<longrightarrow> student.contact (student_of_row r) = None)
   \<and> (length r < 5 \<longrightarrow> student.serviceCategory (student_of_row r) = None)
   \<and> (length r < 4 \<longrightarrow> student.category (student_of_row r) = None)
   \<and> (length r < 3 \<longrightarrow> student.gender (student_of_row r) = None)
   \<and> (length r < 2 \<longrightarrow> student.name (student_of_row r) = None)
   \<and> (length r < 1 \<longrightarrow> student.rollNo (student_of_row r) = None)
   \<and> (length r < 6 \<longrightarrow> discipline.actionTaken (discipline_of_row r) = ''Verbal Warning'')
   \<and> (length r < 5 \<longrightarrow> discipline.description (discipline_of_row r) = None)
   \<and> (length r < 4 \<longrightarrow> discipline.rollNo (discipline_of_row r) = None)
   \<and> (length r < 3 \<longrightarrow> discipline.studentName (discipline_of_row r) = None)
   \<and> (length r < 2 \<longrightarrow> discipline.date (discipline_of_row r) = None)
   \<and> (length r < 1 \<longrightarrow> discipline.id' (discipline_of_row r) = None)"
  by (simp add: enrollment_data_def discipline_data_def student_of_row_def
      discipline_of_row_def cell_past_end or_else_None)

theorem short_row_mapping_witness:
  "enrollment_data (Values (Some [[''Roll'', ''Name''], [''101'', ''Asha'']])) =
     Ok [\<lparr>student.rollNo = Some ''101'', name = Some ''Asha'', gender = None, category = None,
          serviceCategory = None, contact = None, status = ''Active''\<rparr>]
   \<and> student.status (student_of_row [''101'', ''Asha'']) = ''Active''
   \<and> student.gender (student_of_row [''101'', ''Asha'']) = None
   \<and> discipline.actionTaken (discipline_of_row [''101'', ''Asha'']) = ''Verbal Warning''
   \<and> discipline.description (discipline_of_row [''101'', ''Asha'']) = None"
  using short_row_mapping [of "Some [[''Roll'', ''Name''], [''101'', ''Asha'']]"
      "[''101'', ''Asha'']"]
  by (simp add: slice1_def rows_of_def student_of_row_def cell_def or_else_def)

subsection \<open>Counts against a fixed list of labels\<close>

lemma length_filter_eq_iff: "length (filter P xs) = length xs \<longleftrightarrow> list_all P xs"
proof
  assume eq: "length (filter P xs) = length xs"
  show "list_all P xs"
  proof (rule ccontr)
    assume "\<not> list_all P xs"
    then obtain x where "x \<in> set xs" "\<not> P x" by (auto simp: list_all_iff)
    then have "length (filter P xs) < length xs" by (rule length_filter_less)
    with eq show False by simp
  qed
next
  assume "list_all P xs"
  then have "filter P xs = xs" by (simp add: list_all_iff)
  then show "length (filter P xs) = length xs" by simp
qed

lemma casteCategories_total:
  "sum_list (map name_count.count (casteCategories students)) =
   length (filter (\<lambda>student. cell student 3 \<in>
     Some ` set [''General'', ''OBC'', ''SC'', ''ST'', ''Muslim'']) students)"
  by (induction students) (auto simp: casteCategories_def)

lemma categories_total:
  "sum_list (map category_count.count (categories studentData)) =
   length (filter (\<lambda>student. cell student 3 \<in>
     Some ` set [''General'', ''OBC'', ''SC'', ''ST'', ''Muslim'']) studentData)"
  by (induction studentData) (auto simp: categories_def)

lemma serviceCategories_total:
  "sum_list (map category_count.count (serviceCategories students)) =
   length (filter (\<lambda>student. cell student 4 \<in>
     Some ` set [''1'', ''2'', ''3'', ''4'', ''5'']) students)"
  by (induction students) (auto simp: serviceCategories_def)

lemma performanceDistribution_total:
  "sum_list (map name_count.count (performanceDistribution performance)) =
   length (filter (\<lambda>student. cell student 1 \<in>
     Some ` set [''Excellent'', ''Good'', ''Average'', ''Needs Improvement'']) performance)"
  by (induction performance) (auto simp: performanceDistribution_def)

lemma casteCategories_labelled:
  "casteCategories (filter (\<lambda>student. cell student 3 \<in>
     Some ` set [''General'', ''OBC'', ''SC'', ''ST'', ''Muslim'']) students) =
   casteCategories students"
  by (auto simp: casteCategories_def intro!: arg_cong[where f=length] filter_cong)

lemma categories_labelled:
  "categories (filter (\<lambda>student. cell student 3 \<in>
     Some ` set [''General'', ''OBC'', ''SC'', ''ST'', ''Muslim'']) studentData) =
   categories studentData"
  by (auto simp: categories_def intro!: arg_cong[where f=length] filter_cong)

lemma serviceCategories_labelled:
  "serviceCategories (filter (\<lambda>student. cell student 4 \<in>
     Some ` set [''1'', ''2'', ''3'', ''4'', ''5'']) students) =
   serviceCategories students"
  by (auto simp: serviceCategories_def intro!: arg_cong[where f=length] filter_cong)

lemma performanceDistribution_labelled:
  "performanceDistribution (filter (\<lambda>student. cell student 1 \<in>
     Some ` set [''Excellent'', ''Good'', ''Average'', ''Needs Improvement'']) performance) =
   performanceDistribution performance"
  by (auto simp: performanceDistribution_def intro!: arg_cong[where f=length] filter_cong)

text \<open>
  Claim C4, as stated for every count against a fixed list of labels, fails on the grade
  distribution of assessments-data: each count that is zero is replaced by a literal
  (\<^verbatim>\<open>|| 5\<close>, \<^verbatim>\<open>|| 12\<close>, ...), so over an empty Grades table the counts sum to 45.
\<close>

theorem grade_counts_exceed_input:
  "\<not> sum_list (map grade_count.count (gradeDistribution_of [])) \<le> length ([] :: row list)"
  by (simp add: gradeDistribution_of_def or_count_def)

text \<open>
  Claim C4, amended: for the counts that are returned as counted (the caste categories of
  categories-data and of dashboard-data, the service categories and the performance
  distribution), the sum of the counts is at most the number of rows, with equality
  exactly when every row's cell is one of the labels, and the counts are those of the
  rows whose cell is one of the labels: a row with another value, or with no such cell,
  is in no bucket.
\<close>

theorem fixed_label_counts:
  "sum_list (map name_count.count (casteCategories students)) \<le> length students
   \<and> (sum_list (map name_count.count (casteCategories students)) = length students \<longleftrightarrow>
      list_all (\<lambda>student. cell student 3 \<in>
        Some ` set [''General'', ''OBC'', ''SC'', ''ST'', ''Muslim'']) students)
   \<and> casteCategories (filter (\<lambda>student. cell student 3 \<in>
        Some ` set [''General'', ''OBC'', ''SC'', ''ST'', ''Muslim'']) students) =
      casteCategories students
   \<and> sum_list (map category_count.count (categories students)) \<le> length students
   \<and> (sum_list (map category_count.count (categories students)) = length students \<longleftrightarrow>
      list_all (\<lambda>student. cell student 3 \<in>
        Some ` set [''General'', ''OBC'', ''SC'', ''ST'', ''Muslim'']) students)
   \<and> categories (filter (\<lambda>student. cell student 3 \<in>
        Some ` set [''General'', ''OBC'', ''SC'', ''ST'', ''Muslim'']) students) =
      categories students
   \<and> sum_list (map category_count.count (serviceCategories students)) \<le> length students
   \<and> (sum_list (map category_count.count (serviceCategories students)) = length students \<longleftrightarrow>
      list_all (\<lambda>student. cell student 4 \<in>
        Some ` set [''1'', ''2'', ''3'', ''4'', ''5'']) students)
   \<and> serviceCategories (filter (\<lambda>student. cell student 4 \<in>
        Some ` set [''1'', ''2'', ''3'', ''4'', ''5'']) students) =
      serviceCategories students
   \<and> sum_list (map name_count.count (performanceDistribution performance))
        \<le> length performance
   \<and> (sum_list (map name_count.count (performanceDistribution performance)) =
        length performance \<longleftrightarrow>
      list_all (\<lambda>student. cell student 1 \<in>
        Some ` set [''Excellent'', ''Good'', ''Average'', ''Needs Improvement'']) performance)
   \<and> performanceDistribution (filter (\<lambda>student. cell student 1 \<in>
        Some ` set [''Excellent'', ''Good'', ''Average'', ''Needs Improvement''])
        performance) =
      performanceDistribution performance"
  unfolding casteCategories_total categories_total serviceCategories_total
    performanceDistribution_total length_filter_eq_iff
  using casteCategories_labelled categories_labelled serviceCategories_labelled
    performanceDistribution_labelled
  by (intro conjI length_filter_le refl)

theorem fixed_label_counts_witness:
  "casteCategories [[''101'', ''Asha'', ''Female'', ''OBC''], [''102'', ''Ravi'', ''Male'', ''EWS''],
                    [''103'']] =
     [\<lparr>name_count.name = ''General'', count = 0\<rparr>, \<lparr>name_count.name = ''OBC'', count = 1\<rparr>,
      \<lparr>name_count.name = ''SC'', count = 0\<rparr>, \<lparr>name_count.name = ''ST'', count = 0\<rparr>,
      \<lparr>name_count.name = ''Muslim'', count = 0\<rparr>]
   \<and> sum_list (map name_count.count (casteCategories
        [[''101'', ''Asha'', ''Female'', ''OBC''], [''102'', ''Ravi'', ''Male'', ''EWS''],
         [''103'']])) < 3"
  using fixed_label_counts [of "[[''101'', ''Asha'', ''Female'', ''OBC''],
      [''102'', ''Ravi'', ''Male'', ''EWS''], [''103'']]" "[]"]
  by (simp add: casteCategories_def cell_def)

subsection \<open>GET /api/workshops-data: participants\<close>








subsection \<open>GET /api/student-details/:id: the two joins\<close>

text \<open>
  Claim C9. When the handler answers 200 for the id \<open>id1\<close>, the student is the first data
  row of Students whose first cell is \<open>id1\<close>; the achievements returned are the title
  cells (column 3) of the Achievements rows whose studentName cell (column 2) equals the
  student's name cell (Students column 1), in row order, while the discipline records are
  made from the Discipline rows whose roll number cell (column 3) equals \<open>id1\<close>.
  So two students with equal name cells are answered with the same achievements.
\<close>

theorem achievements_joined_by_name:
  assumes "student_details id1 (Values sv) (Values pv) (Values dv) (Values av) = Ok r1"
      and "student_details id2 (Values sv) (Values pv) (Values dv) (Values av) = Ok r2"
  shows "(\<exists>student. find (\<lambda>s. cell s 0 = Some id1) (slice1 (rows_of sv)) = Some student
            \<and> student_details.name r1 = cell student 1)
     \<and> student_details.achievements r1 =
         map (\<lambda>a. cell a 3)
           (filter (\<lambda>a. cell a 2 = student_details.name r1) (slice1 (rows_of av)))
     \<and> student_details.disciplineRecords r1 =
         map (\<lambda>d. \<lparr>discipline_record.id' = cell d 0, date = cell d 1, incident = cell d 4,
                    action = or_else (cell d 5) ''Verbal Warning''\<rparr>)
           (filter (\<lambda>d. cell d 3 = Some id1) (slice1 (rows_of dv)))
     \<and> (student_details.name r1 = student_details.name r2 \<longrightarrow>
          student_details.achievements r1 = student_details.achievements r2)"
  using assms
  by (auto simp: student_details_def Let_def split: option.splits)

theorem achievements_joined_by_name_witness:
  "student_details ''101''
     (Values (Some [[''Roll'', ''Name''], [''101'', ''Asha''], [''102'', ''Asha'']]))
     (Values None) (Values None)
     (Values (Some [[''ID'', ''Date'', ''Student'', ''Title''],
                    [''A1'', ''2024-01-05'', ''Asha'', ''Chess medal'']])) =
   Ok \<lparr>student_details.rollNo = Some ''101'', name = Some ''Asha'', gender = None,
        category = None, serviceCategory = None, contact = None, class' = ''X-A'',
        performanceReport = ''The student shows consistent effort in academics.'',
        strengths = [], weaknesses = [], suggestions = [], disciplineRecords = [],
        achievements = [Some ''Chess medal'']\<rparr>
   \<and> student_details ''102''
     (Values (Some [[''Roll'', ''Name''], [''101'', ''Asha''], [''102'', ''Asha'']]))
     (Values None) (Values None)
     (Values (Some [[''ID'', ''Date'', ''Student'', ''Title''],
                    [''A1'', ''2024-01-05'', ''Asha'', ''Chess medal'']])) =
   Ok \<lparr>student_details.rollNo = Some ''102'', name = Some ''Asha'', gender = None,
        category = None, serviceCategory = None, contact = None, class' = ''X-A'',
        performanceReport = ''The student shows consistent effort in academics.'',
        strengths = [], weaknesses = [], suggestions = [], disciplineRecords = [],
        achievements = [Some ''Chess medal'']\<rparr>"
proof -
  have a: "student_details ''101''
     (Values (Some [[''Roll'', ''Name''], [''101'', ''Asha''], [''102'', ''Asha'']]))
     (Values None) (Values None)
     (Values (Some [[''ID'', ''Date'', ''Student'', ''Title''],
                    [''A1'', ''2024-01-05'', ''Asha'', ''Chess medal'']])) =
   Ok \<lparr>student_details.rollNo = Some ''101'', name = Some ''Asha'', gender = None,
        category = None, serviceCategory = None, contact = None, class' = ''X-A'',
        performanceReport = ''The student shows consistent effort in academics.'',
        strengths = [], weaknesses = [], suggestions = [], disciplineRecords = [],
        achievements = [Some ''Chess medal'']\<rparr>"
    by (simp add: student_details_def slice1_def rows_of_def cell_def or_else_def
        comma_list_def)
  have b: "student_details ''102''
     (Values (Some [[''Roll'', ''Name''], [''101'', ''Asha''], [''102'', ''Asha'']]))
     (Values None) (Values None)
     (Values (Some [[''ID'', ''Date'', ''Student'', ''Title''],
                    [''A1'', ''2024-01-05'', ''Asha'', ''Chess medal'']])) =
   Ok \<lparr>student_details.rollNo = Some ''102'', name = Some ''Asha'', gender = None,
        category = None, serviceCategory = None, contact = None, class' = ''X-A'',
        performanceReport = ''The student shows consistent effort in academics.'',
        strengths = [], weaknesses = [], suggestions = [], disciplineRecords = [],
        achievements = [Some ''Chess medal'']\<rparr>"
    by (simp add: student_details_def slice1_def rows_of_def cell_def or_else_def
        comma_list_def)
  from achievements_joined_by_name[OF a b] a b show ?thesis by simp
qed

subsection \<open>GET /api/syllabus-data on a sheet without data rows\<close>

lemma percent_0_0: "percent 0 0 = NaN"
  by (simp add: percent_def of_count_def)

text \<open>
  Claim C8. When the Syllabus sheet has no row after the header (or no row at all), the
  handler answers 200, not an error, and no fallback is applied to the completion:
  \<open>completionPercentage\<close> is \<^verbatim>\<open>Math.round((0 / 0) * 100)\<close>, which is \<^verbatim>\<open>NaN\<close>
  and is written \<^verbatim>\<open>null\<close> in the JSON body.
\<close>

theorem syllabus_without_rows:
  assumes "slice1 (rows_of v) = []"
  shows "syllabus_data parseInt rnd (Values v) =
      Ok \<lparr>completionPercentage = NaN, completedUnits = 0, totalUnits = 0,
           remainingDays = 45, topics = [], unitCompletion = [], timeAllocation = [],
           upcomingTopics = []\<rparr>
    \<and> percent 0 0 = NaN \<and> json_num NaN = JNull"
  using assms by (simp add: syllabus_data_def percent_0_0)

theorem syllabus_without_rows_witness:
  "slice1 (rows_of (Some [[''ID'', ''Unit'', ''Topic'']])) = []
   \<and> syllabus_data (\<lambda>c. NaN) (\<lambda>n. 0) (Values (Some [[''ID'', ''Unit'', ''Topic'']])) =
      Ok \<lparr>completionPercentage = NaN, completedUnits = 0, totalUnits = 0,
           remainingDays = 45, topics = [], unitCompletion = [], timeAllocation = [],
           upcomingTopics = []\<rparr>"
proof -
  have e: "slice1 (rows_of (Some [[''ID'', ''Unit'', ''Topic'']])) = []"
    by (simp add: slice1_def rows_of_def)
  from syllabus_without_rows[OF e, of "\<lambda>c. NaN" "\<lambda>n. 0"] e show ?thesis by simp
qed

subsection \<open>GET /api/assessments-data\<close>






lemma js_sort_Nil: "js_sort cmp [] = []"
  by (simp add: js_sort_def)





text \<open>
  Claim C6. When the Assessments sheet has no row after the header (or no row at all) and
  both fetches succeed, the handler answers 200 with \<open>nextAssessment\<close> the literal
  \<open>{date: 'Apr 15', name: 'Unit Test 3'}\<close> and \<open>lastAssessmentAverage\<close> 76, whatever
  the Grades sheet holds.
\<close>

theorem assessments_without_rows:
  assumes "slice1 (rows_of av) = []"
  shows "\<exists>body. assessments_data parseFloat parseDate (Values av) (Values gv) = Ok body
     \<and> assessments_body.nextAssessment body =
         \<lparr>next_assessment.date = Some ''Apr 15'', name = Some ''Unit Test 3''\<rparr>
     \<and> assessments_body.lastAssessmentAverage body = Some (Fin 76)"
  using assms by (simp add: assessments_data_def js_sort_Nil)

theorem assessments_without_rows_witness:
  "slice1 (rows_of (Some [[''ID'', ''Date'', ''Title'', ''Type'', ''Max'', ''Status'']])) = []
   \<and> (\<exists>body. assessments_data (\<lambda>c. NaN) (\<lambda>c. None)
          (Values (Some [[''ID'', ''Date'', ''Title'', ''Type'', ''Max'', ''Status'']]))
          (Values (Some [[''Assessment'', ''Student'', ''Score'', ''Percentage'', ''Grade''],
                         [''A1'', ''101'', ''40'', ''80'', ''A'']])) = Ok body
     \<and> assessments_body.nextAssessment body =
         \<lparr>next_assessment.date = Some ''Apr 15'', name = Some ''Unit Test 3''\<rparr>
     \<and> assessments_body.lastAssessmentAverage body = Some (Fin 76))"
proof -
  have e: "slice1 (rows_of (Some [[''ID'', ''Date'', ''Title'', ''Type'', ''Max'', ''Status'']])) = []"
    by (simp add: slice1_def rows_of_def)
  from assessments_without_rows[OF e] e show ?thesis by simp
qed



subsection \<open>The calendar of the runtime\<close>

lemma DayFromYear_1970: "DayFromYear 1970 = 0"
  by (simp add: DayFromYear_def)

lemma DayFromYear_up: "DayFromYear (1970 + int n) \<le> 366 * int n"
proof (induction n)
  case 0
  show ?case by (simp add: DayFromYear_1970)
next
  case (Suc n)
  have "DayFromYear (1970 + int (Suc n)) = DayFromYear (1970 + int n) + DaysInYear (1970 + int n)"
    using DayFromYear_Suc[of "1970 + int n"] by (simp add: algebra_simps)
  with Suc DaysInYear_ge(2)[of "1970 + int n"] show ?case by simp
qed

lemma DayFromYear_down: "DayFromYear (1970 - int n) \<le> - 365 * int n"
proof (induction n)
  case 0
  show ?case by (simp add: DayFromYear_1970)
next
  case (Suc n)
  have "DayFromYear (1970 - int n) = DayFromYear (1970 - int (Suc n)) + DaysInYear (1970 - int (Suc n))"
    using DayFromYear_Suc[of "1970 - int (Suc n)"] by (simp add: algebra_simps)
  with Suc DaysInYear_ge(1)[of "1970 - int (Suc n)"] show ?case by simp
qed

lemma year_start_le:
  "DayFromYear (1970 + (if 0 \<le> d then d div 366 else d div 365)) \<le> d"
proof (cases "0 \<le> d")
  case True
  then have q: "0 \<le> d div 366" by simp
  have "DayFromYear (1970 + int (nat (d div 366))) \<le> 366 * int (nat (d div 366))"
    by (rule DayFromYear_up)
  with q have "DayFromYear (1970 + d div 366) \<le> 366 * (d div 366)" by simp
  also have "\<dots> \<le> d" by simp
  finally show ?thesis using True by simp
next
  case False
  then have "d div 365 < 0" by (intro div_neg_pos_less0) simp_all
  then have q: "d div 365 \<le> 0" by simp
  have "DayFromYear (1970 - int (nat (- (d div 365)))) \<le> - 365 * int (nat (- (d div 365)))"
    by (rule DayFromYear_down)
  with q have "DayFromYear (1970 + d div 365) \<le> 365 * (d div 365)" by simp
  also have "\<dots> \<le> d" by simp
  finally show ?thesis using False by simp
qed

lemma year_from_bounds:
  "DayFromYear y \<le> d \<Longrightarrow>
   DayFromYear (year_from y d) \<le> d \<and> d < DayFromYear (year_from y d + 1)"
proof (induction y d rule: year_from.induct)
  case (1 y d)
  show ?case
  proof (cases "DayFromYear (y + 1) \<le> d")
    case True
    with "1.IH" show ?thesis by (simp add: year_from.simps[of y d])
  next
    case False
    with "1.prems" show ?thesis by (simp add: year_from.simps[of y d])
  qed
qed

lemma YearFromDay_bounds:
  "DayFromYear (YearFromDay d) \<le> d" "d < DayFromYear (YearFromDay d + 1)"
  using year_from_bounds[OF year_start_le[of d]] by (simp_all add: YearFromDay_def)

lemma DayFromYear_next:
  "DayFromYear (y + 1) = DayFromYear y + 365 + (if DaysInYear y = 366 then 1 else 0)"
  unfolding DayFromYear_Suc by (simp add: DaysInYear_def)


lemma DayWithinYear_bounds:
  "0 \<le> DayWithinYear t" "DayWithinYear t < 365 + InLeapYear t"
  using YearFromDay_bounds[of "Day t"] DayFromYear_next[of "YearFromTime t"]
  by (simp_all add: DayWithinYear_def InLeapYear_def YearFromTime_def)


lemma InLeapYear_cases: "InLeapYear t = 0 \<or> InLeapYear t = 1"
  by (simp add: InLeapYear_def)


lemma month_of_range:
  assumes "0 \<le> d" "d < 365 + l" "l = 0 \<or> l = 1"
  shows "0 \<le> month_of d l" "month_of d l \<le> 11"
    "month_start (month_of d l) l \<le> d" "d - month_start (month_of d l) l < 31"
  using assms by (auto simp: month_of_def month_start_def)


lemma MonthFromTime_range: "0 \<le> MonthFromTime t" "MonthFromTime t \<le> 11"
  using month_of_range(1,2)[OF DayWithinYear_bounds InLeapYear_cases, of t]
  by (simp_all add: MonthFromTime_def)


lemma DateFromTime_range: "1 \<le> DateFromTime t" "DateFromTime t \<le> 31"
  using month_of_range(3,4)[OF DayWithinYear_bounds InLeapYear_cases, of t]
  by (simp_all add: DateFromTime_def MonthFromTime_def)


text \<open>The year, the month and the day of the month determine the day number.\<close>


lemma Day_from_civil:
  "Day t = DayFromYear (YearFromTime t)
     + month_start (MonthFromTime t) (if DaysInYear (YearFromTime t) = 366 then 1 else 0)
     + DateFromTime t - 1"
  by (simp add: DateFromTime_def DayWithinYear_def InLeapYear_def)


lemma MakeDay_shift:
  "MakeDay (YearFromTime t) (MonthFromTime t) (DateFromTime t + k) = Day t + k"
proof -
  have "MonthFromTime t div 12 = 0" "MonthFromTime t mod 12 = MonthFromTime t"
    using MonthFromTime_range[of t] by simp_all
  then show ?thesis
    using Day_from_civil[of t] by (simp add: MakeDay_def)
qed


lemma MakeDate_Day: "MakeDate (Day t + k) (TimeWithinDay t) = t + k * msPerDay"
  by (simp add: MakeDate_def Day_def TimeWithinDay_def algebra_simps)


lemma setDate_Fixed:
  "setDate (Fixed off) t (getDate (Fixed off) t + k) = TimeClip (t + k * msPerDay)"
  by (simp add: setDate_def getDate_def LocalTime_def UTC_def MakeDay_shift MakeDate_Day)


lemma Day_add: "Day (t + k * msPerDay) = Day t + k"
  by (simp add: Day_def msPerDay_def)


lemma pad_numeral:
  "pad (numeral k) n = pad (pred_numeral k) (n div 10) @ [digit_char (n mod 10)]"
  using pad.simps(2)[of "pred_numeral k" n] by (simp only: numeral_eq_Suc[of k, symmetric])

lemma length_pad: "length (pad k n) = k"
  by (induction k arbitrary: n) simp_all


lemma lt10:
  assumes "(a::nat) < 10"
  shows "a = 0 \<or> a = 1 \<or> a = 2 \<or> a = 3 \<or> a = 4 \<or> a = 5
   \<or> a = 6 \<or> a = 7 \<or> a = 8 \<or> a = 9"
proof -
  have "[0..<10] = [0, 1, 2, 3, 4, 5, 6, 7, 8, 9 :: nat]" by code_simp
  moreover have "a \<in> set [0..<10]" using assms by simp
  ultimately have "a \<in> set [0, 1, 2, 3, 4, 5, 6, 7, 8, 9 :: nat]" by simp
  then show ?thesis by simp
qed

lemma digit_char_inj: "a < 10 \<Longrightarrow> b < 10 \<Longrightarrow> digit_char a = digit_char b \<Longrightarrow> a = b"
  using lt10[of a] lt10[of b] by (auto simp: digit_char_def)


lemma digit_char_not_sign:
  "a < 10 \<Longrightarrow> digit_char a \<noteq> CHR ''+'' \<and> digit_char a \<noteq> CHR ''-''"
  using lt10[of a] by (auto simp: digit_char_def)


lemma pad_inj: "n < 10 ^ k \<Longrightarrow> m < 10 ^ k \<Longrightarrow> pad k n = pad k m \<Longrightarrow> n = m"
proof (induction k arbitrary: n m)
  case 0
  then show ?case by simp
next
  case (Suc k)
  from Suc.prems(3) have p: "pad k (n div 10) = pad k (m div 10)"
    and d: "digit_char (n mod 10) = digit_char (m mod 10)"
    by (simp_all add: length_pad)
  have "n div 10 < 10 ^ k" "m div 10 < 10 ^ k"
    using Suc.prems(1,2) by (simp_all add: div_less_iff_less_mult)
  with p have "n div 10 = m div 10" by (rule Suc.IH[rotated 2])
  moreover have "n mod 10 = m mod 10" using d by (intro digit_char_inj) simp_all
  ultimately show ?case by (metis div_mult_mod_eq)
qed

subsection \<open>Date strings\<close>

lemma setDate_shift:
  "setDate z t (getDate z t + k) = TimeClip (UTC z (LocalTime z t + k * msPerDay))"
  by (simp add: setDate_def getDate_def MakeDay_shift MakeDate_Day)

lemma iso_date_4digit:
  assumes "0 \<le> YearFromTime t" "YearFromTime t \<le> 9999"
  shows "iso_date t = pad 4 (nat (YearFromTime t)) @ ''-'' @ pad 2 (nat (MonthFromTime t + 1))
           @ ''-'' @ pad 2 (nat (DateFromTime t))"
  using assms by (simp add: iso_date_def toISOString_def Let_def length_pad)

lemma hd_pad4: "hd (pad 4 n) = digit_char (n div 10 div 10 div 10 mod 10)"
  by (simp add: pad_numeral)

lemma hd_iso_date_digit:
  assumes "0 \<le> YearFromTime t" "YearFromTime t \<le> 9999"
  shows "hd (iso_date t) \<noteq> CHR ''+'' \<and> hd (iso_date t) \<noteq> CHR ''-''"
proof -
  have "pad 4 (nat (YearFromTime t)) \<noteq> []"
    using length_pad[of 4 "nat (YearFromTime t)"] by auto
  then have "hd (iso_date t) = hd (pad 4 (nat (YearFromTime t)))"
    unfolding iso_date_4digit[OF assms] by simp
  then show ?thesis
    unfolding hd_pad4 using digit_char_not_sign[of "nat (YearFromTime t) div 10 div 10 div 10 mod 10"]
    by simp
qed

lemma hd_iso_date_sign:
  assumes "\<not> (0 \<le> YearFromTime t \<and> YearFromTime t \<le> 9999)"
  shows "hd (iso_date t) = CHR ''+'' \<or> hd (iso_date t) = CHR ''-''"
  using assms by (auto simp: iso_date_def toISOString_def Let_def)

text \<open>
  Two time values with the same date string, one of them in a year of four digits, are
  on the same day.
\<close>

lemma iso_date_inj:
  assumes t: "0 \<le> YearFromTime t" "YearFromTime t \<le> 9999"
      and eq: "iso_date u = iso_date t"
  shows "Day u = Day t"
proof -
  have u: "0 \<le> YearFromTime u \<and> YearFromTime u \<le> 9999"
    using hd_iso_date_sign[of u] hd_iso_date_digit[OF t] eq by auto
  then have u1: "0 \<le> YearFromTime u" and u2: "YearFromTime u \<le> 9999" by simp_all
  from eq have "pad 4 (nat (YearFromTime u)) = pad 4 (nat (YearFromTime t))
      \<and> pad 2 (nat (MonthFromTime u + 1)) = pad 2 (nat (MonthFromTime t + 1))
      \<and> pad 2 (nat (DateFromTime u)) = pad 2 (nat (DateFromTime t))"
    unfolding iso_date_4digit[OF t] iso_date_4digit[OF u1 u2]
    by (simp add: length_pad)
  then have y: "nat (YearFromTime u) = nat (YearFromTime t)"
    and m: "nat (MonthFromTime u + 1) = nat (MonthFromTime t + 1)"
    and d: "nat (DateFromTime u) = nat (DateFromTime t)"
    using t u MonthFromTime_range[of t] MonthFromTime_range[of u]
      DateFromTime_range[of t] DateFromTime_range[of u]
    by (auto intro!: pad_inj)
  from y t u have "YearFromTime u = YearFromTime t" by (simp add: eq_nat_nat_iff)
  moreover from m MonthFromTime_range[of t] MonthFromTime_range[of u]
  have "MonthFromTime u = MonthFromTime t" by (simp add: eq_nat_nat_iff)
  moreover from d DateFromTime_range[of t] DateFromTime_range[of u]
  have "DateFromTime u = DateFromTime t" by (simp add: eq_nat_nat_iff)
  ultimately show ?thesis
    using Day_from_civil[of u] Day_from_civil[of t] by simp
qed

lemma iso_date_same_day:
  assumes "Day u = Day t"
  shows "iso_date u = iso_date t"
proof -
  have y: "YearFromTime u = YearFromTime t" by (simp add: YearFromTime_def assms)
  then have "DayWithinYear u = DayWithinYear t" "InLeapYear u = InLeapYear t"
    by (simp_all add: DayWithinYear_def InLeapYear_def assms)
  then have "MonthFromTime u = MonthFromTime t" "DateFromTime u = DateFromTime t"
    by (simp_all add: MonthFromTime_def DateFromTime_def)
  with y show ?thesis by (simp add: iso_date_def toISOString_def Let_def length_pad)
qed

lemma iso_date_eq_iff:
  assumes "0 \<le> YearFromTime t" "YearFromTime t \<le> 9999"
  shows "iso_date u = iso_date t \<longleftrightarrow> Day u = Day t"
  using iso_date_inj[OF assms] iso_date_same_day by blast

subsection \<open>GET /api/calendar-data: the grid\<close>

lemma collect_map_Inr:
  "(\<And>x. x \<in> set xs \<Longrightarrow> f x = Inr (g x)) \<Longrightarrow> collect (map f xs) = Inr (map g xs)"
  by (induction xs) simp_all

lemma dayEvents_of_typed:
  assumes "list_all (\<lambda>e. event.type' e \<noteq> None) evs"
  shows "dayEvents_of evs s =
     Inr (map (\<lambda>event. \<lparr>day_event.id' = event.id' event, title = event.title event,
                 type' = toLowerCase (the (event.type' event)), time = event.time event\<rparr>)
           (filter (\<lambda>event. event.date event = Some s) evs))"
  unfolding dayEvents_of_def
  using assms by (intro collect_map_Inr) (auto simp: list_all_iff)

lemma events_typed:
  assumes "list_all (\<lambda>row. 4 \<le> length row) rows"
  shows "list_all (\<lambda>e. event.type' e \<noteq> None) (map event_of_row rows)"
  using assms by (auto simp: list_all_iff event_of_row_def cell_def)

lemma DayFromYear_mono_nat: "DayFromYear y \<le> DayFromYear (y + int n)"
proof (induction n)
  case 0
  show ?case by simp
next
  case (Suc n)
  have "DayFromYear (y + int (Suc n)) = DayFromYear (y + int n) + DaysInYear (y + int n)"
    using DayFromYear_Suc[of "y + int n"] by (simp add: algebra_simps)
  with Suc DaysInYear_ge(1)[of "y + int n"] show ?case by simp
qed

lemma DayFromYear_mono: "y \<le> y' \<Longrightarrow> DayFromYear y \<le> DayFromYear y'"
  using DayFromYear_mono_nat[of y "nat (y' - y)"] by simp

lemma four_digit_year_bounds:
  assumes "0 \<le> YearFromTime t" "YearFromTime t \<le> 9999"
  shows "- 719528 * msPerDay \<le> t" "t < 2932897 * msPerDay"
proof -
  have lo: "DayFromYear 0 = - 719528" and hi: "DayFromYear 10000 = 2932897"
    by (simp_all add: DayFromYear_def)
  have "DayFromYear 0 \<le> DayFromYear (YearFromTime t)"
    by (rule DayFromYear_mono) (rule assms)
  moreover have "DayFromYear (YearFromTime t + 1) \<le> DayFromYear 10000"
    by (rule DayFromYear_mono) (use assms in simp)
  ultimately have d: "- 719528 \<le> Day t" "Day t < 2932897"
    using YearFromDay_bounds[of "Day t"] by (simp_all add: lo hi YearFromTime_def)
  have "t = msPerDay * Day t + t mod msPerDay" by (simp add: Day_def)
  moreover have "0 \<le> t mod msPerDay" "t mod msPerDay < msPerDay"
    by (simp_all add: msPerDay_def)
  ultimately have "msPerDay * Day t \<le> t" "t < msPerDay * Day t + msPerDay" by linarith+
  with d show "- 719528 * msPerDay \<le> t" "t < 2932897 * msPerDay"
    by (simp_all add: msPerDay_def)
qed

lemma TimeClip_near:
  assumes "0 \<le> YearFromTime t" "YearFromTime t \<le> 9999" "- 6 \<le> k" "k \<le> 34"
  shows "TimeClip (t + k * msPerDay) = Some (t + k * msPerDay)"
  using four_digit_year_bounds[OF assms(1,2)] assms(3,4)
  by (simp add: TimeClip_def msPerDay_def)

lemma getDay_range: "0 \<le> getDay z t" "getDay z t \<le> 6"
  by (simp_all add: getDay_def WeekDay_def)

lemma currentDate_of_Fixed:
  "currentDate_of (Fixed off) t w d =
     TimeClip (t + (int d + 7 * int w - getDay (Fixed off) t) * msPerDay)"
proof -
  have "getDate (Fixed off) t - getDay (Fixed off) t + int d + int w * 7 =
        getDate (Fixed off) t + (int d + 7 * int w - getDay (Fixed off) t)" by simp
  then show ?thesis
    unfolding currentDate_of_def
    by (simp only: setDate_shift) (simp add: UTC_def LocalTime_def)
qed

lemma sunday_before:
  "getDay (Fixed off) (t - getDay (Fixed off) t * msPerDay) = 0"
proof -
  define x where "x = Day (t + off)"
  define wd where "wd = (x + 4) mod 7"
  have wdq: "getDay (Fixed off) t = wd"
    by (simp add: getDay_def WeekDay_def LocalTime_def wd_def x_def)
  have "LocalTime (Fixed off) (t - wd * msPerDay) = (t + off) + (- wd) * msPerDay"
    by (simp add: LocalTime_def)
  then have "Day (LocalTime (Fixed off) (t - wd * msPerDay)) = x + (- wd)"
    by (simp only: Day_add x_def)
  moreover have "(x + (- wd) + 4) mod 7 = 0"
    unfolding wd_def by presburger
  ultimately show ?thesis
    unfolding wdq by (simp add: getDay_def WeekDay_def)
qed

text \<open>
  In a zone of fixed offset, with today in a year of four digits and every event typed,
  the cell of \<open>week\<close> and \<open>day\<close> is made without an exception, and it is today's cell
  exactly when \<open>day + 7 * week\<close> is today's weekday.
\<close>

lemma calendar_cell_Fixed:
  assumes y: "0 \<le> YearFromTime t" "YearFromTime t \<le> 9999"
      and ty: "list_all (\<lambda>e. event.type' e \<noteq> None) evs"
      and w: "w < 5" and d: "d < 7"
  shows "\<exists>c. calendar_cell (Fixed off) evs t w d = Inr c
     \<and> currentDate_of (Fixed off) t w d =
         Some (t + (int d + 7 * int w - getDay (Fixed off) t) * msPerDay)
     \<and> day_cell.date c =
         getDate (Fixed off) (t + (int d + 7 * int w - getDay (Fixed off) t) * msPerDay)
     \<and> day_cell.isToday c = (int d + 7 * int w = getDay (Fixed off) t)"
proof -
  define k where "k = int d + 7 * int w - getDay (Fixed off) t"
  have kr: "- 6 \<le> k" "k \<le> 34"
    using getDay_range[of "Fixed off" t] w d by (simp_all add: k_def)
  have cur: "currentDate_of (Fixed off) t w d = Some (t + k * msPerDay)"
    unfolding currentDate_of_Fixed k_def[symmetric] by (rule TimeClip_near[OF y kr])
  have today: "(iso_date (t + k * msPerDay) = iso_date t) = (k = 0)"
    unfolding iso_date_eq_iff[OF y] Day_add by simp
  have "(k = 0) = (int d + 7 * int w = getDay (Fixed off) t)"
    by (auto simp: k_def)
  with today cur show ?thesis
    unfolding k_def[symmetric]
    by (simp add: calendar_cell_def dayEvents_of_typed[OF ty])
qed

lemma collect_all_Inr:
  assumes "\<And>r. r \<in> set rs \<Longrightarrow> \<exists>x. r = Inr x"
  shows "\<exists>xs. collect rs = Inr xs \<and> rs = map Inr xs"
  using assms
proof (induction rs)
  case Nil
  show ?case by simp
next
  case (Cons r rs)
  from Cons.prems[of r] obtain x where x: "r = Inr x" by auto
  from Cons.IH Cons.prems obtain xs where xs: "collect rs = Inr xs" "rs = map Inr xs" by auto
  show ?case
    using x xs by (intro exI[of _ "x # xs"]) simp
qed

text \<open>When no cell throws, the grid has five weeks of seven cells, each the loop body's cell.\<close>

lemma calendarData_of_cells:
  assumes "\<And>w d. w < 5 \<Longrightarrow> d < 7 \<Longrightarrow> \<exists>c. calendar_cell z evs t w d = Inr c"
  shows "\<exists>grid. calendarData_of z evs t = Inr grid \<and> length grid = 5
     \<and> (\<forall>w<5. length (grid ! w) = 7
          \<and> (\<forall>d<7. calendar_cell z evs t w d = Inr (grid ! w ! d)))"
proof -
  let ?week = "\<lambda>w. collect (map (\<lambda>d. calendar_cell z evs t w d) [0 ..< 7])"
  have week: "\<exists>cells. ?week w = Inr cells
      \<and> map (\<lambda>d. calendar_cell z evs t w d) [0 ..< 7] = map Inr cells" if "w < 5" for w
    using assms[OF that] by (intro collect_all_Inr) auto
  have "\<exists>grid. collect (map ?week [0 ..< 5]) = Inr grid \<and> map ?week [0 ..< 5] = map Inr grid"
  proof (rule collect_all_Inr)
    fix r assume "r \<in> set (map ?week [0 ..< 5])"
    then obtain w where "w < 5" "r = ?week w" by auto
    with week[of w] show "\<exists>x. r = Inr x" by auto
  qed
  then obtain grid where grid: "calendarData_of z evs t = Inr grid"
      and weeks: "map ?week [0 ..< 5] = map Inr grid"
    unfolding calendarData_of_def by blast
  from weeks have len: "length grid = 5"
    using length_map[of ?week "[0 ..< 5]"] by simp
  have cells: "length (grid ! w) = 7 \<and> (\<forall>d<7. calendar_cell z evs t w d = Inr (grid ! w ! d))"
    if w: "w < 5" for w
  proof -
    from weeks w len have "?week w = Inr (grid ! w)"
      using nth_map[of w "[0 ..< 5]" ?week] nth_map[of w grid Inr] by simp
    with week[OF w] have m: "map (\<lambda>d. calendar_cell z evs t w d) [0 ..< 7] = map Inr (grid ! w)"
      by auto
    then have l: "length (grid ! w) = 7"
      using length_map[of "\<lambda>d. calendar_cell z evs t w d" "[0 ..< 7]"] by simp
    have "calendar_cell z evs t w d = Inr (grid ! w ! d)" if "d < 7" for d
      using m that l nth_map[of d "[0 ..< 7]" "\<lambda>d. calendar_cell z evs t w d"]
        nth_map[of d "grid ! w" Inr] by simp
    with l show ?thesis by simp
  qed
  from grid len cells show ?thesis by blast
qed

lemma list5: "length xs = 5 \<Longrightarrow> xs = [xs ! 0, xs ! 1, xs ! 2, xs ! 3, xs ! 4]"
  by (auto simp: list_eq_iff_nth_eq less_Suc_eq eval_nat_numeral nth_Cons')

lemma list7:
  "length xs = 7 \<Longrightarrow> xs = [xs ! 0, xs ! 1, xs ! 2, xs ! 3, xs ! 4, xs ! 5, xs ! 6]"
  by (auto simp: list_eq_iff_nth_eq less_Suc_eq eval_nat_numeral nth_Cons')


lemma upt7: "[0 ..< 7] = [0, 1, 2, 3, 4, 5, 6]"
  by code_simp

lemma upt5: "[0 ..< 5] = [0, 1, 2, 3, 4]"
  by code_simp

lemma weekday_cases:
  assumes "0 \<le> wd" "wd \<le> (6 :: int)"
  shows "wd = 0 \<or> wd = 1 \<or> wd = 2 \<or> wd = 3 \<or> wd = 4 \<or> wd = 5 \<or> wd = 6"
proof -
  have "nat wd \<in> set [0 ..< 7]" using assms by simp
  then have "nat wd \<in> set [0, 1, 2, 3, 4, 5, 6]" unfolding upt7 .
  then have "nat wd = 0 \<or> nat wd = 1 \<or> nat wd = 2 \<or> nat wd = 3 \<or> nat wd = 4
      \<or> nat wd = 5 \<or> nat wd = 6" by simp
  with assms(1) show ?thesis by auto
qed

text \<open>A grid in which the cell of \<open>w\<close> and \<open>d\<close> is marked exactly when \<open>d + 7 * w\<close> is the
  weekday has one marked cell.\<close>

lemma one_marked_cell:
  assumes len: "length grid = 5"
      and rows: "\<And>w. w < 5 \<Longrightarrow> length (grid ! w) = 7"
      and mark: "\<And>w d. w < 5 \<Longrightarrow> d < 7 \<Longrightarrow> P (grid ! w ! d) = (int d + 7 * int w = wd)"
      and wd: "0 \<le> wd" "wd \<le> 6"
  shows "length (filter P (concat grid)) = 1"
proof -
  define f where "f = (\<lambda>w d. grid ! w ! d)"
  have row: "grid ! w = map (f w) [0 ..< 7]" if "w < 5" for w
    using rows[OF that] by (simp add: list_eq_iff_nth_eq f_def)
  have "grid = map (\<lambda>w. grid ! w) [0 ..< 5]"
    using len by (simp add: list_eq_iff_nth_eq)
  also have "\<dots> = map (\<lambda>w. map (f w) [0 ..< 7]) [0 ..< 5]"
    by (rule map_cong) (simp_all add: row)
  finally have grid: "grid = map (\<lambda>w. map (f w) [0 ..< 7]) [0 ..< 5]" .
  have P: "P (f w d) = (int d + 7 * int w = wd)" if "w < 5" "d < 7" for w d
    using mark[OF that] by (simp add: f_def)
  show ?thesis
    unfolding grid upt5 upt7
    using weekday_cases[OF wd] by (auto simp: P)
qed

text \<open>The marked cells of a grid, counted over the pairs of a week and a day.\<close>

lemma marked_cells:
  assumes len: "length grid = 5"
      and rows: "\<And>w. w < 5 \<Longrightarrow> length (grid ! w) = 7"
      and mark: "\<And>w d. w < 5 \<Longrightarrow> d < 7 \<Longrightarrow> P (grid ! w ! d) = Q w d"
  shows "length (filter P (concat grid)) =
     length (filter (\<lambda>(w, d). Q w d) (List.product [0 ..< 5] [0 ..< 7]))"
proof -
  define f where "f = (\<lambda>w d. grid ! w ! d)"
  have row: "grid ! w = map (f w) [0 ..< 7]" if "w < 5" for w
    using rows[OF that] by (simp add: list_eq_iff_nth_eq f_def)
  have "grid = map (\<lambda>w. grid ! w) [0 ..< 5]"
    using len by (simp add: list_eq_iff_nth_eq)
  also have "\<dots> = map (\<lambda>w. map (f w) [0 ..< 7]) [0 ..< 5]"
    by (rule map_cong) (simp_all add: row)
  finally have "concat grid = concat (map (\<lambda>w. map (f w) [0 ..< 7]) [0 ..< 5])" by simp
  also have "\<dots> = map (\<lambda>(w, d). f w d) (List.product [0 ..< 5] [0 ..< 7])"
    by (simp add: product_concat_map map_concat comp_def)
  finally have "length (filter P (concat grid)) =
      length (filter (\<lambda>p. P ((\<lambda>(w, d). f w d) p)) (List.product [0 ..< 5] [0 ..< 7]))"
    by (simp add: filter_map comp_def)
  also have "filter (\<lambda>p. P ((\<lambda>(w, d). f w d) p)) (List.product [0 ..< 5] [0 ..< 7]) =
      filter (\<lambda>(w, d). Q w d) (List.product [0 ..< 5] [0 ..< 7])"
    by (rule filter_cong) (auto simp: f_def mark)
  finally show ?thesis .
qed

lemma currentDate_of_shift:
  "currentDate_of z t w d =
     TimeClip (UTC z (LocalTime z t + (int d + 7 * int w - getDay z t) * msPerDay))"
proof -
  have "getDate z t - getDay z t + int d + int w * 7 =
        getDate z t + (int d + 7 * int w - getDay z t)" by simp
  then show ?thesis
    unfolding currentDate_of_def by (simp only: setDate_shift)
qed

lemma dayEvents_of_Nil: "dayEvents_of [] s = Inr []"
  by (simp add: dayEvents_of_def)

text \<open>
  Claim C5, as stated for any value of today, fails when the host's time zone changes its
  offset inside the grid. \<^verbatim>\<open>setDate\<close> keeps the local time of day, while the date
  string is the UTC date. Take a host on Central European Time, whose clocks go from one
  hour ahead of UTC to two hours ahead at 2024-03-31T01:00:00Z, and let today be
  2024-03-31T00:30:00Z (a Sunday, 01:30 local time). The cell of week 0, day 1 is 1 April,
  01:30 local time, which is 2024-03-31T23:30:00Z: its date string is today's. The
  handler answers 200 with two cells marked \<open>isToday\<close>: the cells of week 0, day 0 and of
  week 0, day 1.
\<close>

theorem calendar_two_todays:
  "\<exists>body. calendar_data (Shift 1711846800000 3600000 7200000) (\<lambda>c. None) 1711845000000
        (Values None) = Ok body
     \<and> length (calendarData body) = 5
     \<and> length (filter day_cell.isToday (concat (calendarData body))) = 2
     \<and> day_cell.isToday (calendarData body ! 0 ! 0)
     \<and> day_cell.isToday (calendarData body ! 0 ! 1)
     \<and> currentDate_of (Shift 1711846800000 3600000 7200000) 1711845000000 0 0
         = Some 1711845000000
     \<and> currentDate_of (Shift 1711846800000 3600000 7200000) 1711845000000 0 1
         = Some 1711927800000"
proof -
  let ?z = "Shift 1711846800000 3600000 7200000"
  let ?t = "1711845000000 :: int"
  have y: "0 \<le> YearFromTime ?t" "YearFromTime ?t \<le> 9999"
    by (simp_all add: YearFromTime_def YearFromDay_def year_from.simps DayFromYear_def
        Day_def msPerDay_def)
  have lt: "LocalTime ?z ?t = 1711848600000"
    by (simp add: LocalTime_def)
  have wd: "getDay ?z ?t = 0"
    by (simp add: getDay_def WeekDay_def lt Day_def msPerDay_def)
  have cur: "currentDate_of ?z ?t w d =
      Some (UTC ?z (1711848600000 + (int d + 7 * int w) * msPerDay))"
    if "w < 5" "d < 7" for w d
    unfolding currentDate_of_shift lt wd using that
    by (simp add: TimeClip_def UTC_def msPerDay_def)
  have cell: "\<exists>c. calendar_cell ?z [] ?t w d = Inr c
      \<and> day_cell.isToday c =
          (Day (UTC ?z (1711848600000 + (int d + 7 * int w) * msPerDay)) = Day ?t)"
    if "w < 5" "d < 7" for w d
    by (simp add: calendar_cell_def cur[OF that] dayEvents_of_Nil iso_date_eq_iff[OF y])
  from calendarData_of_cells[of ?z "[]" ?t] cell
  obtain grid where grid: "calendarData_of ?z [] ?t = Inr grid" and len: "length grid = 5"
    and cells: "\<And>w. w < 5 \<Longrightarrow> length (grid ! w) = 7"
      "\<And>w d. w < 5 \<Longrightarrow> d < 7 \<Longrightarrow> calendar_cell ?z [] ?t w d = Inr (grid ! w ! d)"
    by blast
  have mark: "day_cell.isToday (grid ! w ! d) =
      (Day (UTC ?z (1711848600000 + (int d + 7 * int w) * msPerDay)) = Day ?t)"
    if "w < 5" "d < 7" for w d
    using cell[OF that] cells(2)[OF that] by auto
  have "length (filter day_cell.isToday (concat grid)) =
      length (filter (\<lambda>(w, d).
          Day (UTC ?z (1711848600000 + (int d + 7 * int w) * msPerDay)) = Day ?t)
        (List.product [0 ..< 5] [0 ..< 7]))"
    by (rule marked_cells[where Q = "\<lambda>w d.
          Day (UTC ?z (1711848600000 + (int d + 7 * int w) * msPerDay)) = Day ?t",
          OF len cells(1) mark])
  then have count: "length (filter day_cell.isToday (concat grid)) = 2"
    unfolding upt5 upt7 by (simp add: UTC_def Day_def msPerDay_def)
  have body: "calendar_data ?z (\<lambda>c. None) ?t (Values None) =
      Ok \<lparr>calendarData = grid, upcomingEvents = []\<rparr>"
    by (simp add: calendar_data_def rows_of_def slice1_def grid js_sort_def)
  have "day_cell.isToday (grid ! 0 ! 0)" "day_cell.isToday (grid ! 0 ! 1)"
    by (simp_all add: mark UTC_def Day_def msPerDay_def)
  moreover have "currentDate_of ?z ?t 0 0 = Some 1711845000000"
    "currentDate_of ?z ?t 0 1 = Some 1711927800000"
    by (simp_all add: cur UTC_def msPerDay_def)
  ultimately show ?thesis
    unfolding body using len count by simp
qed

text \<open>
  Claim C5, amended. Let the host's time zone have a fixed offset from UTC (as a host on
  UTC has), let today be in a year of four digits (0 to 9999), and let every data row of
  Events have a type cell (a matching event without one makes
  \<^verbatim>\<open>event.type.toLowerCase()\<close> throw, and the answer is 500). Then the handler
  answers 200, and the grid has exactly 5 weeks of exactly 7 cells. The cell of week 0,
  day 0 is the Sunday on or before today in local time: its date is today minus today's
  weekday in days (the weekday being between 0 and 6, Sunday 0), a day whose weekday is 0,
  and the cell's \<open>date\<close> is that day's day of the month. Exactly one cell of the grid is
  marked \<open>isToday\<close>: the cell of week 0 at today's weekday, whose date is today.
\<close>

theorem calendar_grid:
  assumes y: "0 \<le> YearFromTime today" "YearFromTime today \<le> 9999"
      and typed: "list_all (\<lambda>row. 4 \<le> length row) (slice1 (rows_of v))"
  shows "\<exists>body. calendar_data (Fixed off) parseDate today (Values v) = Ok body
     \<and> length (calendarData body) = 5
     \<and> list_all (\<lambda>week. length week = 7) (calendarData body)
     \<and> currentDate_of (Fixed off) today 0 0 =
         Some (today - getDay (Fixed off) today * msPerDay)
     \<and> day_cell.date (calendarData body ! 0 ! 0) =
         getDate (Fixed off) (today - getDay (Fixed off) today * msPerDay)
     \<and> getDay (Fixed off) (today - getDay (Fixed off) today * msPerDay) = 0
     \<and> 0 \<le> getDay (Fixed off) today \<and> getDay (Fixed off) today \<le> 6
     \<and> length (filter day_cell.isToday (concat (calendarData body))) = 1
     \<and> day_cell.isToday (calendarData body ! 0 ! nat (getDay (Fixed off) today))
     \<and> currentDate_of (Fixed off) today 0 (nat (getDay (Fixed off) today)) = Some today"
proof -
  define evs where "evs = map event_of_row (slice1 (rows_of v))"
  define wd where "wd = getDay (Fixed off) today"
  have ty: "list_all (\<lambda>e. event.type' e \<noteq> None) evs"
    unfolding evs_def by (rule events_typed[OF typed])
  have wdr: "0 \<le> wd" "wd \<le> 6"
    using getDay_range[of "Fixed off" today] by (simp_all add: wd_def)
  note cellF = calendar_cell_Fixed[OF y ty, of _ _ off, folded wd_def]
  from calendarData_of_cells[of "Fixed off" evs today] cellF
  obtain grid where grid: "calendarData_of (Fixed off) evs today = Inr grid"
    and len: "length grid = 5"
    and rows: "\<And>w. w < 5 \<Longrightarrow> length (grid ! w) = 7"
    and cells: "\<And>w d. w < 5 \<Longrightarrow> d < 7 \<Longrightarrow>
        calendar_cell (Fixed off) evs today w d = Inr (grid ! w ! d)"
    by blast
  have mark: "day_cell.isToday (grid ! w ! d) = (int d + 7 * int w = wd)"
    if "w < 5" "d < 7" for w d
    using cellF[OF that] cells[OF that] by auto
  have dat: "day_cell.date (grid ! w ! d) =
      getDate (Fixed off) (today + (int d + 7 * int w - wd) * msPerDay)"
    if "w < 5" "d < 7" for w d
    using cellF[OF that] cells[OF that] by auto
  have cur: "currentDate_of (Fixed off) today w d =
      Some (today + (int d + 7 * int w - wd) * msPerDay)"
    if "w < 5" "d < 7" for w d
    using cellF[OF that] by auto
  have body: "calendar_data (Fixed off) parseDate today (Values v) =
      Ok \<lparr>calendarData = grid,
          upcomingEvents =
            take 5 (js_sort (\<lambda>a b. date_minus parseDate (event.date a) (event.date b))
              (filter (\<lambda>event. (case parseDate (event.date event) of
                                   None \<Rightarrow> False | Some t \<Rightarrow> today \<le> t)) evs))\<rparr>"
    by (simp add: calendar_data_def evs_def[symmetric] grid)
  have weeks: "list_all (\<lambda>week. length week = 7) grid"
    using rows len by (auto simp: list_all_length)
  have one: "length (filter day_cell.isToday (concat grid)) = 1"
    by (rule one_marked_cell[OF len rows mark wdr])
  have n: "nat wd < 7" "int (nat wd) = wd" using wdr by simp_all
  have today: "day_cell.isToday (grid ! 0 ! nat wd)"
    using mark[of 0 "nat wd"] n by simp
  have cur_today: "currentDate_of (Fixed off) today 0 (nat wd) = Some today"
    using cur[of 0 "nat wd"] n by simp
  have c00: "currentDate_of (Fixed off) today 0 0 = Some (today - wd * msPerDay)"
    using cur[of 0 0] by (simp add: algebra_simps)
  have d00: "day_cell.date (grid ! 0 ! 0) = getDate (Fixed off) (today - wd * msPerDay)"
    using dat[of 0 0] by (simp add: algebra_simps)
  have sun: "getDay (Fixed off) (today - wd * msPerDay) = 0"
    unfolding wd_def by (rule sunday_before)
  show ?thesis
    unfolding body wd_def[symmetric]
    using len weeks c00 d00 sun wdr one today cur_today by simp
qed

theorem calendar_grid_witness:
  "0 \<le> YearFromTime 1711845000000 \<and> YearFromTime 1711845000000 \<le> 9999
   \<and> list_all (\<lambda>row. 4 \<le> length row)
        (slice1 (rows_of (Some [[''ID'', ''Date'', ''Title'', ''Type''],
                                [''E1'', ''2024-04-02'', ''Sports Day'', ''Event'']])))
   \<and> getDay (Fixed 0) 1711845000000 = 0
   \<and> (\<exists>body. calendar_data (Fixed 0) (\<lambda>c. None) 1711845000000
          (Values (Some [[''ID'', ''Date'', ''Title'', ''Type''],
                         [''E1'', ''2024-04-02'', ''Sports Day'', ''Event'']])) = Ok body
        \<and> length (calendarData body) = 5
        \<and> list_all (\<lambda>week. length week = 7) (calendarData body)
        \<and> length (filter day_cell.isToday (concat (calendarData body))) = 1
        \<and> day_cell.isToday (calendarData body ! 0 ! 0))"
proof -
  have y: "0 \<le> YearFromTime 1711845000000" "YearFromTime 1711845000000 \<le> 9999"
    by (simp_all add: YearFromTime_def YearFromDay_def year_from.simps DayFromYear_def
        Day_def msPerDay_def)
  have typed: "list_all (\<lambda>row. 4 \<le> length row)
        (slice1 (rows_of (Some [[''ID'', ''Date'', ''Title'', ''Type''],
                                [''E1'', ''2024-04-02'', ''Sports Day'', ''Event'']])))"
    by (simp add: slice1_def rows_of_def)
  have wd: "getDay (Fixed 0) 1711845000000 = 0"
    by (simp add: getDay_def WeekDay_def LocalTime_def Day_def msPerDay_def)
  from calendar_grid[OF y typed, of 0 "\<lambda>c. None"] y typed wd
  show ?thesis by auto
qed

end
